theory Spec2Isabelle
  imports Main "HOL-Library.Multiset" "HOL-Library.Log_Nat"
begin

section \<open>Volume Linker: the device manager as a state machine over the audio platform\<close>

text \<open>
  The development embeds \<^verbatim>\<open>AudioDeviceManager\<close> and \<^verbatim>\<open>AudioDevice\<close> of
  Volume Linker. The manager's data members are a record; the Windows audio
  subsystem and the dialog's message queue, which the C++ reaches through COM
  interface pointers and \<^verbatim>\<open>PostMessage\<close>, are a second record that every member
  function takes and returns. A C++ exception is a value: a member function that can
  throw returns the exception together with the state it leaves behind.
\<close>

subsection \<open>Basic types\<close>

text \<open>A wide string is the list of its UTF-16 code units; \<^verbatim>\<open>c_str()\<close> ends it with 0.\<close>

type_synonym wstring = "nat list"

text \<open>A GUID is a number, \<^verbatim>\<open>GUID_NULL\<close> being 0; a window handle likewise.\<close>

type_synonym GUID = nat

type_synonym HWND = nat

definition GUID_NULL :: GUID where
  "GUID_NULL = 0"

text \<open>
  An \<^verbatim>\<open>IAudioEndpointVolume\<close> interface pointer is identified with the endpoint it
  controls, an \<^verbatim>\<open>IMMDevice\<close> with its position in the platform's collection.
\<close>

type_synonym IMMDevice = nat

type_synonym IAudioEndpointVolume = nat

text \<open>
  A finite single-precision float is a mantissa and a binary exponent; its value is
  \<open>mant * 2 ^ expo\<close>. The volume scalars of the platform are such floats.
\<close>

datatype float32 = Float32 (mant: int) (expo: int)

definition valof :: "float32 \<Rightarrow> rat" where
  "valof v = of_int (mant v) * 2 powi (expo v)"

text \<open>The floats of IEEE binary32: 24 bits of mantissa, exponents of the format.\<close>

definition is_float32 :: "float32 \<Rightarrow> bool" where
  "is_float32 v = (\<bar>mant v\<bar> < 2 ^ 24 \<and> - 149 \<le> expo v \<and> expo v \<le> 104)"

text \<open>Every exception of the two classes is a \<^verbatim>\<open>std::runtime_error\<close> with a message.\<close>

datatype error = runtime_error string

text \<open>\<^verbatim>\<open>helpers.h\<close>: the maximum volume level on the trackbar.\<close>

definition MAX_VOL :: int where
  "MAX_VOL = 100"

subsection \<open>The platform\<close>

text \<open>
  The calls the manager makes on the audio subsystem. Each one is recorded, in order,
  in the platform state; \<open>Release\<close> is the release of an interface pointer when a
  \<^verbatim>\<open>wil::com_ptr_nothrow\<close> holding it is reset.
\<close>

datatype com_call =
    Activate IMMDevice
  | RegisterControlChangeNotify IAudioEndpointVolume
  | UnregisterControlChangeNotify IAudioEndpointVolume
  | GetMute IAudioEndpointVolume
  | GetMasterVolumeLevelScalar IAudioEndpointVolume
  | SetMasterVolumeLevelScalar IAudioEndpointVolume float32 GUID
  | SetMute IAudioEndpointVolume bool GUID
  | Release IAudioEndpointVolume

text \<open>What reaches the user interface: messages posted to windows, and message boxes.\<close>

datatype window = Dialog HWND | DlgItem HWND int

datatype message = BM_SETCHECK bool | TBM_SETPOS int | WM_CLOSE

datatype ui_effect = PostMessage window message | MessageBoxW HWND string

text \<open>
  The platform state. \<open>w_hresult\<close> is the platform's behaviour: given the calls made so
  far and the next call, whether that call succeeds (\<^verbatim>\<open>SUCCEEDED(hr)\<close>). \<open>w_volume\<close> and
  \<open>w_mute\<close> are the endpoints' volume states, \<open>w_notify\<close> the endpoints on which the
  manager's callback object is registered, \<open>w_posted\<close> the user-interface effects so far.
\<close>

record world =
  w_hresult :: "com_call list \<Rightarrow> com_call \<Rightarrow> bool"
  w_calls :: "com_call list"
  w_volume :: "IAudioEndpointVolume \<Rightarrow> float32"
  w_mute :: "IAudioEndpointVolume \<Rightarrow> bool"
  w_notify :: "IAudioEndpointVolume set"
  w_posted :: "ui_effect list"

definition SUCCEEDED :: "world \<Rightarrow> com_call \<Rightarrow> bool" where
  "SUCCEEDED w c = w_hresult w (w_calls w) c"

definition issue :: "com_call \<Rightarrow> world \<Rightarrow> world" where
  "issue c w = w\<lparr>w_calls := w_calls w @ [c]\<rparr>"

definition post :: "ui_effect \<Rightarrow> world \<Rightarrow> world" where
  "post e w = w\<lparr>w_posted := w_posted w @ [e]\<rparr>"

text \<open>
  The platform's side of each call. A failed call changes nothing but the record of
  calls. Unregistering cannot fail for a non-null callback pointer (the source's note
  at the call), so it always removes the registration.
\<close>

definition com_Activate :: "IMMDevice \<Rightarrow> world \<Rightarrow> IAudioEndpointVolume option \<times> world" where
  "com_Activate d w =
     (if SUCCEEDED w (Activate d) then Some d else None, issue (Activate d) w)"

definition com_RegisterControlChangeNotify :: "IAudioEndpointVolume \<Rightarrow> world \<Rightarrow> bool \<times> world" where
  "com_RegisterControlChangeNotify h w =
     (if SUCCEEDED w (RegisterControlChangeNotify h)
      then (True, (issue (RegisterControlChangeNotify h) w)\<lparr>w_notify := insert h (w_notify w)\<rparr>)
      else (False, issue (RegisterControlChangeNotify h) w))"

definition com_UnregisterControlChangeNotify :: "IAudioEndpointVolume \<Rightarrow> world \<Rightarrow> world" where
  "com_UnregisterControlChangeNotify h w =
     (issue (UnregisterControlChangeNotify h) w)\<lparr>w_notify := w_notify w - {h}\<rparr>"

definition com_GetMute :: "IAudioEndpointVolume \<Rightarrow> world \<Rightarrow> bool option \<times> world" where
  "com_GetMute h w =
     (if SUCCEEDED w (GetMute h) then Some (w_mute w h) else None, issue (GetMute h) w)"

definition com_GetMasterVolumeLevelScalar ::
  "IAudioEndpointVolume \<Rightarrow> world \<Rightarrow> float32 option \<times> world" where
  "com_GetMasterVolumeLevelScalar h w =
     (if SUCCEEDED w (GetMasterVolumeLevelScalar h) then Some (w_volume w h) else None,
      issue (GetMasterVolumeLevelScalar h) w)"

definition com_SetMasterVolumeLevelScalar ::
  "IAudioEndpointVolume \<Rightarrow> float32 \<Rightarrow> GUID \<Rightarrow> world \<Rightarrow> bool \<times> world" where
  "com_SetMasterVolumeLevelScalar h v g w =
     (if SUCCEEDED w (SetMasterVolumeLevelScalar h v g)
      then (True, (issue (SetMasterVolumeLevelScalar h v g) w)\<lparr>w_volume := (w_volume w)(h := v)\<rparr>)
      else (False, issue (SetMasterVolumeLevelScalar h v g) w))"

definition com_SetMute :: "IAudioEndpointVolume \<Rightarrow> bool \<Rightarrow> GUID \<Rightarrow> world \<Rightarrow> bool \<times> world" where
  "com_SetMute h b g w =
     (if SUCCEEDED w (SetMute h b g)
      then (True, (issue (SetMute h b g) w)\<lparr>w_mute := (w_mute w)(h := b)\<rparr>)
      else (False, issue (SetMute h b g) w))"

text \<open>Assigning \<^verbatim>\<open>nullptr\<close> to a smart pointer releases what it held, if anything.\<close>

definition reset_ptr :: "IAudioEndpointVolume option \<Rightarrow> world \<Rightarrow> world" where
  "reset_ptr p w = (case p of None \<Rightarrow> w | Some h \<Rightarrow> issue (Release h) w)"

subsection \<open>\<^verbatim>\<open>AudioDevice\<close> and \<^verbatim>\<open>AudioDeviceManager\<close>\<close>

record AudioDevice =
  m_iItemOffset :: nat
  m_pEndpoint :: IMMDevice
  m_wsId :: wstring
  m_wsName :: wstring

text \<open>
  The manager's data members, with the source's names. A null pointer or window handle
  is \<open>None\<close>; \<^verbatim>\<open>ptrdiff_t\<close> values are integers.
\<close>

record manager =
  m_exitCode :: int
  m_processGUID :: GUID
  m_hDialog :: "HWND option"
  m_iMuteCheckboxID :: int
  m_iVolumeSliderID :: int
  m_collectionCount :: nat
  m_audioDevices :: "AudioDevice list"
  m_bLinkActive :: bool
  m_iMasterDeviceIdx :: int
  m_iSlaveDeviceIdx :: int
  m_pMasterEndptVol :: "IAudioEndpointVolume option"
  m_pSlaveEndptVol :: "IAudioEndpointVolume option"

text \<open>\<^verbatim>\<open>AudioDevice::activateAudioEndpointVolume\<close>: throws when the activation fails.\<close>

definition activateAudioEndpointVolume ::
  "AudioDevice \<Rightarrow> world \<Rightarrow> (error + IAudioEndpointVolume) \<times> world" where
  "activateAudioEndpointVolume dev w =
     (case com_Activate (m_pEndpoint dev) w of
        (None, w') \<Rightarrow> (Inl (runtime_error ''Unable to open device endpoint volume control.''), w')
      | (Some h, w') \<Rightarrow> (Inr h, w'))"

text \<open>
  \<^verbatim>\<open>getDevice\<close>: a negative index is refused first; \<^verbatim>\<open>vector::at\<close> throws
  \<^verbatim>\<open>std::out_of_range\<close> beyond the end, which is caught and rethrown.
\<close>

definition getDevice :: "manager \<Rightarrow> int \<Rightarrow> error + AudioDevice" where
  "getDevice m idx =
     (if idx < 0 then Inl (runtime_error ''Negative device number requested.'')
      else if nat idx < length (m_audioDevices m) then Inr (m_audioDevices m ! nat idx)
      else Inl (runtime_error ''Invalid device number requested.''))"

definition isLinkActive :: "manager \<Rightarrow> bool" where
  "isLinkActive m = m_bLinkActive m"

definition getMasterDeviceIdx :: "manager \<Rightarrow> int" where
  "getMasterDeviceIdx m = m_iMasterDeviceIdx m"

definition getSlaveDeviceIdx :: "manager \<Rightarrow> int" where
  "getSlaveDeviceIdx m = m_iSlaveDeviceIdx m"

definition getExitCode :: "manager \<Rightarrow> int" where
  "getExitCode m = m_exitCode m"

definition setDialog :: "manager \<Rightarrow> HWND option \<Rightarrow> int \<Rightarrow> int \<Rightarrow> manager" where
  "setDialog m hDlg muteCheckboxID volumeSliderID =
     m\<lparr>m_hDialog := hDlg, m_iMuteCheckboxID := muteCheckboxID,
       m_iVolumeSliderID := volumeSliderID\<rparr>"

text \<open>
  \<^verbatim>\<open>unlinkDevices\<close> (\<^verbatim>\<open>noexcept\<close>): unregisters the callback when the link is active
  and the master pointer is set, then clears the link state; the two pointer
  assignments release the interfaces held.
\<close>

definition unlinkDevices :: "manager \<Rightarrow> world \<Rightarrow> manager \<times> world" where
  "unlinkDevices m w =
     (let w1 = (if m_bLinkActive m
                then (case m_pMasterEndptVol m of
                        Some h \<Rightarrow> com_UnregisterControlChangeNotify h w
                      | None \<Rightarrow> w)
                else w);
          w2 = reset_ptr (m_pMasterEndptVol m) w1;
          w3 = reset_ptr (m_pSlaveEndptVol m) w2
      in (m\<lparr>m_bLinkActive := False, m_iMasterDeviceIdx := - 1, m_iSlaveDeviceIdx := - 1,
            m_pMasterEndptVol := None, m_pSlaveEndptVol := None\<rparr>, w3))"

subsection \<open>The slider position\<close>

text \<open>
  \<^verbatim>\<open>_updateDialog\<close> computes the slider position in double precision. A float converts
  to a double exactly; a product or a sum of doubles is the exact result rounded to the
  nearest double, ties to the even mantissa. \<open>ilog2 x\<close> is the binary exponent of a
  positive \<open>x\<close>, the integer \<open>e\<close> with \<open>2 ^ e \<le> x < 2 ^ (e + 1)\<close>; a double near \<open>x\<close> is
  a multiple of \<open>2 ^ (e - 52)\<close>. The exponent range of the doubles is not modelled: no
  product of a float by 100 leaves it.
\<close>

definition ilog2 :: "rat \<Rightarrow> int" where
  "ilog2 x = (if 1 \<le> x then bitlen \<lfloor>x\<rfloor> - 1 else - bitlen (\<lceil>1 / x\<rceil> - 1))"

definition round_half_even :: "rat \<Rightarrow> int" where
  "round_half_even x =
     (let n = \<lfloor>x\<rfloor>; r = x - of_int n
      in if r < 1 / 2 then n else if 1 / 2 < r then n + 1 else if even n then n else n + 1)"

definition to_double :: "rat \<Rightarrow> rat" where
  "to_double x =
     (if x = 0 then 0
      else let q = ilog2 \<bar>x\<bar> - 52
           in of_int (round_half_even (x / 2 powi q)) * 2 powi q)"

definition double_mult :: "rat \<Rightarrow> rat \<Rightarrow> rat" where
  "double_mult a b = to_double (a * b)"

definition double_add :: "rat \<Rightarrow> rat \<Rightarrow> rat" where
  "double_add a b = to_double (a + b)"

text \<open>
  \<^verbatim>\<open>static_cast<ptrdiff_t>\<close> of a double drops the fraction (towards zero). Where
  the result does not fit \<^verbatim>\<open>ptrdiff_t\<close> the language leaves the conversion undefined;
  the conversion instruction of the 64-bit build gives the smallest value of the type
  there.
\<close>

definition truncate_double :: "rat \<Rightarrow> int" where
  "truncate_double x =
     (let t = (if 0 \<le> x then \<lfloor>x\<rfloor> else \<lceil>x\<rceil>)
      in if - (2 ^ 63) \<le> t \<and> t < 2 ^ 63 then t else - (2 ^ 63))"

text \<open>
  The slider position of \<^verbatim>\<open>_updateDialog\<close>:
  \<^verbatim>\<open>static_cast<ptrdiff_t>((static_cast<double>(MAX_VOL) * fMasterVolume) + 0.5)\<close>,
  then the two clamps.
\<close>

definition sliderVolume :: "float32 \<Rightarrow> int" where
  "sliderVolume fMasterVolume =
     (let s = truncate_double (double_add (double_mult (of_int MAX_VOL) (valof fMasterVolume)) (1 / 2))
      in if s < 0 then 0 else if s > MAX_VOL then MAX_VOL else s)"

subsection \<open>Volume operations and the notification handler\<close>

text \<open>
  The private member functions \<^verbatim>\<open>_updateDialog\<close>, \<^verbatim>\<open>_setSlaveVolume\<close> and
  \<^verbatim>\<open>_onVolumeCallback\<close> are written without their leading underscore.
\<close>

text \<open>
  \<^verbatim>\<open>static_cast<int>\<close> of a \<^verbatim>\<open>ptrdiff_t\<close> keeps the low 32 bits, read as a signed
  number: the value itself when it is an \<^verbatim>\<open>int\<close>.
\<close>

definition static_cast_int :: "int \<Rightarrow> int" where
  "static_cast_int x = (x + 2 ^ 31) mod 2 ^ 32 - 2 ^ 31"

text \<open>
  \<^verbatim>\<open>_updateDialog\<close>: nothing without a dialog; otherwise the mute checkbox and the
  slider position are posted to the two controls, whose identifiers are cast to
  \<^verbatim>\<open>int\<close>.
\<close>

definition updateDialog :: "manager \<Rightarrow> world \<Rightarrow> float32 \<Rightarrow> bool \<Rightarrow> world" where
  "updateDialog m w fMasterVolume bMuted =
     (case m_hDialog m of
        None \<Rightarrow> w
      | Some hDlg \<Rightarrow>
          post (PostMessage (DlgItem hDlg (static_cast_int (m_iVolumeSliderID m)))
                  (TBM_SETPOS (sliderVolume fMasterVolume)))
            (post (PostMessage (DlgItem hDlg (static_cast_int (m_iMuteCheckboxID m)))
                     (BM_SETCHECK bMuted)) w))"

text \<open>
  \<^verbatim>\<open>setMasterVolume\<close> and \<^verbatim>\<open>setMasterMute\<close> (\<^verbatim>\<open>noexcept\<close>): true without a master
  pointer, otherwise whether the platform call succeeded. The manager is returned as
  the call leaves it.
\<close>

definition setMasterVolume :: "manager \<Rightarrow> world \<Rightarrow> float32 \<Rightarrow> bool \<times> manager \<times> world" where
  "setMasterVolume m w fVolume =
     (case m_pMasterEndptVol m of
        None \<Rightarrow> (True, m, w)
      | Some h \<Rightarrow>
          (case com_SetMasterVolumeLevelScalar h fVolume (m_processGUID m) w of
             (False, w') \<Rightarrow> (False, m, w')
           | (True, w') \<Rightarrow> (True, m, w')))"

definition setMasterMute :: "manager \<Rightarrow> world \<Rightarrow> bool \<Rightarrow> bool \<times> manager \<times> world" where
  "setMasterMute m w bMuted =
     (case m_pMasterEndptVol m of
        None \<Rightarrow> (True, m, w)
      | Some h \<Rightarrow>
          (case com_SetMute h bMuted (m_processGUID m) w of
             (False, w') \<Rightarrow> (False, m, w')
           | (True, w') \<Rightarrow> (True, m, w')))"

text \<open>
  \<^verbatim>\<open>_setSlaveVolume\<close> (\<^verbatim>\<open>noexcept\<close>): true without a slave pointer; otherwise the
  volume, then the mute state, returning false at the first failure.
\<close>

definition setSlaveVolume :: "manager \<Rightarrow> world \<Rightarrow> float32 \<Rightarrow> bool \<Rightarrow> bool \<times> world" where
  "setSlaveVolume m w fVolume bMuted =
     (case m_pSlaveEndptVol m of
        None \<Rightarrow> (True, w)
      | Some h \<Rightarrow>
          (case com_SetMasterVolumeLevelScalar h fVolume (m_processGUID m) w of
             (False, w1) \<Rightarrow> (False, w1)
           | (True, w1) \<Rightarrow>
               (case com_SetMute h bMuted (m_processGUID m) w1 of
                  (False, w2) \<Rightarrow> (False, w2)
                | (True, w2) \<Rightarrow> (True, w2))))"

text \<open>The notification the platform hands to the callback.\<close>

record AUDIO_VOLUME_NOTIFICATION_DATA =
  guidEventContext :: GUID
  bMuted :: bool
  fMasterVolume :: float32

definition fatal_message :: string where
  "fatal_message = ''Failed to sync master volume to slave device in callback. The program will now exit.''"

text \<open>
  \<^verbatim>\<open>_onVolumeCallback\<close>: nothing unless the link is active and both pointers are set;
  the dialog is updated when the event is not the program's own; the slave is set in
  every case; when that fails and a dialog is attached, the exit code is set, a
  message box shown and the dialog told to close.
\<close>

definition onVolumeCallback ::
  "manager \<Rightarrow> world \<Rightarrow> AUDIO_VOLUME_NOTIFICATION_DATA \<Rightarrow> manager \<times> world" where
  "onVolumeCallback m w pNotify =
     (if \<not> m_bLinkActive m \<or> m_pMasterEndptVol m = None \<or> m_pSlaveEndptVol m = None then (m, w)
      else
        let w1 = (if guidEventContext pNotify \<noteq> m_processGUID m
                  then updateDialog m w (fMasterVolume pNotify) (bMuted pNotify)
                  else w);
            (success, w2) = setSlaveVolume m w1 (fMasterVolume pNotify) (bMuted pNotify)
        in case m_hDialog m of
             Some hDlg \<Rightarrow>
               if \<not> success
               then (m\<lparr>m_exitCode := 1\<rparr>,
                     post (PostMessage (Dialog hDlg) WM_CLOSE)
                       (post (MessageBoxW hDlg fatal_message) w2))
               else (m, w2)
           | None \<Rightarrow> (m, w2))"

subsection \<open>Linking\<close>

text \<open>
  \<^verbatim>\<open>linkDevices\<close> in two parts. The first runs from the entry to the assignment of the
  slave index: the old link is broken, the two devices are looked up and activated,
  the callback is registered on the master, and the link is flagged active. The result
  is the exception thrown, if any, and the state at that point.
\<close>

definition link_register ::
  "manager \<Rightarrow> world \<Rightarrow> int \<Rightarrow> int \<Rightarrow> error option \<times> manager \<times> world" where
  "link_register m w masterIdx slaveIdx =
     (case unlinkDevices m w of (m0, w0) \<Rightarrow>
      if masterIdx = slaveIdx then (Some (runtime_error ''Cannot link device to itself.''), m0, w0)
      else
       (case getDevice m0 masterIdx of
          Inl e \<Rightarrow> (Some e, m0, w0)
        | Inr masterDevice \<Rightarrow>
       (case getDevice m0 slaveIdx of
          Inl e \<Rightarrow> (Some e, m0, w0)
        | Inr slaveDevice \<Rightarrow>
       (case activateAudioEndpointVolume masterDevice w0 of
          (Inl e, w1) \<Rightarrow> (Some e, m0, w1)
        | (Inr hm, w1) \<Rightarrow>
       (case activateAudioEndpointVolume slaveDevice w1 of
          (Inl e, w2) \<Rightarrow> (Some e, m0\<lparr>m_pMasterEndptVol := Some hm\<rparr>, w2)
        | (Inr hs, w2) \<Rightarrow>
       (case com_RegisterControlChangeNotify hm w2 of
          (False, w3) \<Rightarrow>
            (Some (runtime_error ''Unable to register master audio endpoint volume callback.''),
             m0\<lparr>m_pMasterEndptVol := Some hm, m_pSlaveEndptVol := Some hs\<rparr>, w3)
        | (True, w3) \<Rightarrow>
            (None,
             m0\<lparr>m_pMasterEndptVol := Some hm, m_pSlaveEndptVol := Some hs,
                m_bLinkActive := True, m_iMasterDeviceIdx := masterIdx,
                m_iSlaveDeviceIdx := slaveIdx\<rparr>, w3)))))))"

text \<open>
  The second part runs from there to the end: the master's mute state and volume are
  read through \<^verbatim>\<open>m_pMasterEndptVol\<close> (set by the first part, and dereferenced without a
  check); they are applied to the slave; the dialog is updated. Each failure unlinks
  and throws.
\<close>

definition link_sync :: "manager \<Rightarrow> world \<Rightarrow> error option \<times> manager \<times> world" where
  "link_sync m w =
     (case com_GetMute (the (m_pMasterEndptVol m)) w of
        (None, w1) \<Rightarrow>
          (case unlinkDevices m w1 of (m', w') \<Rightarrow>
             (Some (runtime_error ''Failed to retrieve master device's volume state. Link could not be established.''), m', w'))
      | (Some muted, w1) \<Rightarrow>
       (case com_GetMasterVolumeLevelScalar (the (m_pMasterEndptVol m)) w1 of
          (None, w2) \<Rightarrow>
            (case unlinkDevices m w2 of (m', w') \<Rightarrow>
               (Some (runtime_error ''Failed to retrieve master device's mute state. Link could not be established.''), m', w'))
        | (Some volume, w2) \<Rightarrow>
         (case setSlaveVolume m w2 volume muted of
            (False, w3) \<Rightarrow>
              (case unlinkDevices m w3 of (m', w') \<Rightarrow>
                 (Some (runtime_error ''Failed to sync master volume to slave device. Link could not be established.''), m', w'))
          | (True, w3) \<Rightarrow> (None, m, updateDialog m w3 volume muted))))"

definition linkDevices ::
  "manager \<Rightarrow> world \<Rightarrow> int \<Rightarrow> int \<Rightarrow> error option \<times> manager \<times> world" where
  "linkDevices m w masterIdx slaveIdx =
     (case link_register m w masterIdx slaveIdx of
        (Some e, m1, w1) \<Rightarrow> (Some e, m1, w1)
      | (None, m1, w1) \<Rightarrow> link_sync m1 w1)"

subsection \<open>Enumeration\<close>

text \<open>
  What the platform's enumerator holds: whether each of the constructor's calls on it
  succeeds, and the collection of endpoints, each with the outcome of the calls that
  \<^verbatim>\<open>AudioDevice\<close>'s constructor makes on it, its identifier and its friendly name.
\<close>

record raw_endpoint =
  item_ok :: bool
  id_ok :: bool
  props_ok :: bool
  name_ok :: bool
  ep_id :: wstring
  ep_name :: wstring

record audio_subsystem =
  create_ok :: bool
  enum_ok :: bool
  count_ok :: bool
  collection :: "raw_endpoint list"

definition AudioDevice_ctor :: "nat \<Rightarrow> raw_endpoint \<Rightarrow> error + AudioDevice" where
  "AudioDevice_ctor itemOffset ep =
     (if \<not> id_ok ep then Inl (runtime_error ''Unable to retrieve audio endpoint ID.'')
      else if \<not> props_ok ep then Inl (runtime_error ''Unable to open device property storage.'')
      else if \<not> name_ok ep then Inl (runtime_error ''Unable to get name of audio endpoint.'')
      else Inr \<lparr>m_iItemOffset = itemOffset, m_pEndpoint = itemOffset,
                m_wsId = ep_id ep, m_wsName = ep_name ep\<rparr>)"

text \<open>The constructor's loop over the collection, from item \<open>i\<close> on.\<close>

fun collect_devices :: "nat \<Rightarrow> raw_endpoint list \<Rightarrow> AudioDevice list \<Rightarrow> error + AudioDevice list" where
  "collect_devices i [] devices = Inr devices"
| "collect_devices i (ep # eps) devices =
     (if \<not> item_ok ep then Inl (runtime_error ''Unable to retrieve an audio endpoint.'')
      else case AudioDevice_ctor i ep of
             Inl e \<Rightarrow> Inl e
           | Inr device \<Rightarrow> collect_devices (Suc i) eps (devices @ [device]))"

text \<open>
  \<^verbatim>\<open>_wcsicmp\<close>: both strings are mapped through \<^verbatim>\<open>towlower\<close> code unit by code unit
  and compared up to the first difference or the terminator; the result is the
  difference of the two code units there. \<^verbatim>\<open>towlower\<close> depends on the locale and is a
  parameter; it maps the terminator 0 to 0.
\<close>

fun wcsicmp :: "(nat \<Rightarrow> nat) \<Rightarrow> wstring \<Rightarrow> wstring \<Rightarrow> int" where
  "wcsicmp lower [] [] = 0"
| "wcsicmp lower [] (y # ys) = - int (lower y)"
| "wcsicmp lower (x # xs) [] = int (lower x)"
| "wcsicmp lower (x # xs) (y # ys) =
     (if lower x \<noteq> 0 \<and> lower x = lower y then wcsicmp lower xs ys
      else int (lower x) - int (lower y))"

text \<open>The comparison handed to \<^verbatim>\<open>std::sort\<close>.\<close>

definition name_less :: "(nat \<Rightarrow> nat) \<Rightarrow> AudioDevice \<Rightarrow> AudioDevice \<Rightarrow> bool" where
  "name_less lower a b = (wcsicmp lower (m_wsName a) (m_wsName b) < 0)"



text \<open>
  The constructor, given the library's sort, the locale's \<^verbatim>\<open>towlower\<close>, the process
  GUID and the platform's enumerator.
\<close>

definition AudioDeviceManager_ctor ::
  "((AudioDevice \<Rightarrow> AudioDevice \<Rightarrow> bool) \<Rightarrow> AudioDevice list \<Rightarrow> AudioDevice list) \<Rightarrow>
   (nat \<Rightarrow> nat) \<Rightarrow> GUID \<Rightarrow> audio_subsystem \<Rightarrow> error + manager" where
  "AudioDeviceManager_ctor srt lower processGUID sys =
     (if processGUID = GUID_NULL
      then Inl (runtime_error ''Invalid process GUID given to AudioDeviceManager.'')
      else if \<not> create_ok sys then Inl (runtime_error ''Unable to create audio device enumerator.'')
      else if \<not> enum_ok sys then Inl (runtime_error ''Unable to enumerate audio devices.'')
      else if \<not> count_ok sys then Inl (runtime_error ''Unable to count audio devices in collection.'')
      else if length (collection sys) = 0 then Inl (runtime_error ''No audio devices found.'')
      else case collect_devices 0 (collection sys) [] of
             Inl e \<Rightarrow> Inl e
           | Inr devices \<Rightarrow>
               let sorted = srt (name_less lower) devices
               in if length (collection sys) \<noteq> length sorted
                  then Inl (runtime_error ''Unable to retrieve all audio device information.'')
                  else Inr \<lparr>m_exitCode = 0, m_processGUID = processGUID, m_hDialog = None,
                            m_iMuteCheckboxID = 0, m_iVolumeSliderID = 0,
                            m_collectionCount = length (collection sys),
                            m_audioDevices = sorted, m_bLinkActive = False,
                            m_iMasterDeviceIdx = - 1, m_iSlaveDeviceIdx = - 1,
                            m_pMasterEndptVol = None, m_pSlaveEndptVol = None\<rparr>)"

text \<open>\<^verbatim>\<open>towlower\<close> of the "C" locale, to run the constructor with.\<close>

definition towlower_C :: "nat \<Rightarrow> nat" where
  "towlower_C c = (if 65 \<le> c \<and> c \<le> 90 then c + 32 else c)"

definition wstr :: "string \<Rightarrow> wstring" where
  "wstr s = map of_char s"

subsection \<open>The sort of the GNU C++ library\<close>

text \<open>
  To run the constructor, \<^verbatim>\<open>std::sort\<close> is given as the GNU C++ library has it
  (\<^verbatim>\<open>bits/stl_algo.h\<close> and \<^verbatim>\<open>bits/stl_heap.h\<close>; the library is not part of the
  repository). The functions keep the library's names without the leading underscores.
  The array is a list, an iterator an index into it; every function returns the array
  it leaves. The comparison \<^verbatim>\<open>__comp\<close> is \<open>lt\<close>. An \<^verbatim>\<open>AudioDevice\<close> declares a
  destructor and so is copied where the library moves; the elements are copied here.
  Ranges are given with \<open>first \<le> last'\<close>, as the library requires, so that a loop up to
  \<^verbatim>\<open>__i != __last\<close> is a loop while \<open>i < last'\<close>.
\<close>

definition iter_swap :: "nat \<Rightarrow> nat \<Rightarrow> 'a list \<Rightarrow> 'a list" where
  "iter_swap a b xs = xs[a := xs ! b, b := xs ! a]"

text \<open>\<^verbatim>\<open>__move_median_to_first\<close>: the median of three elements is swapped to \<open>result\<close>.\<close>

definition move_median_to_first ::
  "('a \<Rightarrow> 'a \<Rightarrow> bool) \<Rightarrow> 'a list \<Rightarrow> nat \<Rightarrow> nat \<Rightarrow> nat \<Rightarrow> nat \<Rightarrow> 'a list" where
  "move_median_to_first lt xs result a b c =
     (if lt (xs ! a) (xs ! b)
      then (if lt (xs ! b) (xs ! c) then iter_swap result b xs
            else if lt (xs ! a) (xs ! c) then iter_swap result c xs
            else iter_swap result a xs)
      else if lt (xs ! a) (xs ! c) then iter_swap result a xs
      else if lt (xs ! b) (xs ! c) then iter_swap result c xs
      else iter_swap result b xs)"

text \<open>
  \<^verbatim>\<open>__unguarded_partition\<close>. Its two inner loops,
  \<^verbatim>\<open>while (__comp(__first, __pivot)) ++__first\<close> and
  \<^verbatim>\<open>while (__comp(__pivot, __last)) --__last\<close>, have no bound of their own in the
  library: the pivot, a median, stops them inside the range. Here they also stop at the
  ends of the array.
\<close>

function unguarded_partition_first :: "('a \<Rightarrow> 'a \<Rightarrow> bool) \<Rightarrow> 'a list \<Rightarrow> nat \<Rightarrow> nat \<Rightarrow> nat" where
  "unguarded_partition_first lt xs first pivot =
     (if first < length xs \<and> lt (xs ! first) (xs ! pivot)
      then unguarded_partition_first lt xs (Suc first) pivot else first)"
  by pat_completeness auto
termination
  by (relation "measure (\<lambda>(lt, xs, first, pivot). length xs - first)") auto

declare unguarded_partition_first.simps [simp del]

fun unguarded_partition_last :: "('a \<Rightarrow> 'a \<Rightarrow> bool) \<Rightarrow> 'a list \<Rightarrow> nat \<Rightarrow> nat \<Rightarrow> nat" where
  "unguarded_partition_last lt xs pivot last' =
     (if 0 < last' \<and> lt (xs ! pivot) (xs ! last')
      then unguarded_partition_last lt xs pivot (last' - 1) else last')"

declare unguarded_partition_last.simps [simp del]

function unguarded_partition ::
  "('a \<Rightarrow> 'a \<Rightarrow> bool) \<Rightarrow> 'a list \<Rightarrow> nat \<Rightarrow> nat \<Rightarrow> nat \<Rightarrow> nat \<times> 'a list" where
  "unguarded_partition lt xs first last' pivot =
     (let first1 = unguarded_partition_first lt xs first pivot;
          last1 = unguarded_partition_last lt xs pivot (last' - 1)
      in if \<not> first1 < last1 then (first1, xs)
         else unguarded_partition lt (iter_swap first1 last1 xs) (Suc first1) last1 pivot)"
  by pat_completeness auto
termination
proof (relation "measure (\<lambda>(lt, xs, first, last', pivot). last' - first)")
  show "wf (measure (\<lambda>(lt :: 'a \<Rightarrow> 'a \<Rightarrow> bool, xs :: 'a list, first :: nat, last' :: nat,
                       pivot :: nat). last' - first))"
    by simp
next
  fix lt :: "'a \<Rightarrow> 'a \<Rightarrow> bool" and xs :: "'a list" and first last' pivot first1 last1 :: nat
  assume a: "first1 = unguarded_partition_first lt xs first pivot"
    and b: "last1 = unguarded_partition_last lt xs pivot (last' - 1)"
    and c: "\<not> \<not> first1 < last1"
  have up: "i \<le> unguarded_partition_first lt xs i pivot" for i
    by (induction lt xs i pivot rule: unguarded_partition_first.induct)
      (metis Suc_leD le_refl unguarded_partition_first.simps)
  have down: "unguarded_partition_last lt xs pivot j \<le> j" for j
    by (induction lt xs pivot j rule: unguarded_partition_last.induct)
      (metis diff_le_self le_refl le_trans unguarded_partition_last.simps)
  show "((lt, iter_swap first1 last1 xs, Suc first1, last1, pivot), (lt, xs, first, last', pivot))
        \<in> measure (\<lambda>(lt, xs, first, last', pivot). last' - first)"
    using up [of first] down [of "last' - 1"] a b c by simp
qed

declare unguarded_partition.simps [simp del]

text \<open>\<^verbatim>\<open>__unguarded_partition_pivot\<close>: the cut and the array partitioned around it.\<close>

definition unguarded_partition_pivot ::
  "('a \<Rightarrow> 'a \<Rightarrow> bool) \<Rightarrow> 'a list \<Rightarrow> nat \<Rightarrow> nat \<Rightarrow> nat \<times> 'a list" where
  "unguarded_partition_pivot lt xs first last' =
     (let mid = first + (last' - first) div 2
      in unguarded_partition lt (move_median_to_first lt xs first (first + 1) mid (last' - 1))
           (first + 1) last' first)"

text \<open>
  \<^verbatim>\<open>__unguarded_linear_insert\<close>: the element at \<open>last'\<close> is moved down past the
  elements that it is less than. The library's loop has no bound (a smaller element
  before it stops it); here it also stops at the start of the array.
\<close>

fun unguarded_linear_insert_loop :: "('a \<Rightarrow> 'a \<Rightarrow> bool) \<Rightarrow> 'a \<Rightarrow> 'a list \<Rightarrow> nat \<Rightarrow> 'a list" where
  "unguarded_linear_insert_loop lt val xs last' =
     (if 0 < last' \<and> lt val (xs ! (last' - 1))
      then unguarded_linear_insert_loop lt val (xs[last' := xs ! (last' - 1)]) (last' - 1)
      else xs[last' := val])"

declare unguarded_linear_insert_loop.simps [simp del]

definition unguarded_linear_insert :: "('a \<Rightarrow> 'a \<Rightarrow> bool) \<Rightarrow> 'a list \<Rightarrow> nat \<Rightarrow> 'a list" where
  "unguarded_linear_insert lt xs last' = unguarded_linear_insert_loop lt (xs ! last') xs last'"

text \<open>
  \<^verbatim>\<open>std::move_backward\<close>: the elements of the range from \<open>first\<close> to \<open>last'\<close> are
  assigned, from the last one down, to the places that end at \<open>d_last\<close>.
\<close>

definition move_backward :: "'a list \<Rightarrow> nat \<Rightarrow> nat \<Rightarrow> nat \<Rightarrow> 'a list" where
  "move_backward xs first last' d_last =
     fold (\<lambda>k ys. ys[d_last - k := ys ! (last' - k)]) [1..<Suc (last' - first)] xs"

text \<open>
  \<^verbatim>\<open>__insertion_sort\<close>: an element less than the first one goes to the front, the
  others being shifted up; any other element is inserted by
  \<^verbatim>\<open>__unguarded_linear_insert\<close>.
\<close>

function insertion_sort_loop ::
  "('a \<Rightarrow> 'a \<Rightarrow> bool) \<Rightarrow> 'a list \<Rightarrow> nat \<Rightarrow> nat \<Rightarrow> nat \<Rightarrow> 'a list" where
  "insertion_sort_loop lt xs first i last' =
     (if i < last'
      then insertion_sort_loop lt
             (if lt (xs ! i) (xs ! first)
              then (move_backward xs first i (Suc i))[first := xs ! i]
              else unguarded_linear_insert lt xs i)
             first (Suc i) last'
      else xs)"
  by pat_completeness auto
termination
  by (relation "measure (\<lambda>(lt, xs, first, i, last'). last' - i)") auto

declare insertion_sort_loop.simps [simp del]

definition insertion_sort :: "('a \<Rightarrow> 'a \<Rightarrow> bool) \<Rightarrow> 'a list \<Rightarrow> nat \<Rightarrow> nat \<Rightarrow> 'a list" where
  "insertion_sort lt xs first last' =
     (if first = last' then xs else insertion_sort_loop lt xs first (Suc first) last')"

text \<open>\<^verbatim>\<open>__unguarded_insertion_sort\<close>, from \<open>i\<close> on.\<close>

function unguarded_insertion_sort ::
  "('a \<Rightarrow> 'a \<Rightarrow> bool) \<Rightarrow> 'a list \<Rightarrow> nat \<Rightarrow> nat \<Rightarrow> 'a list" where
  "unguarded_insertion_sort lt xs i last' =
     (if i < last'
      then unguarded_insertion_sort lt (unguarded_linear_insert lt xs i) (Suc i) last'
      else xs)"
  by pat_completeness auto
termination
  by (relation "measure (\<lambda>(lt, xs, i, last'). last' - i)") auto

declare unguarded_insertion_sort.simps [simp del]

text \<open>\<^verbatim>\<open>_S_threshold\<close>, and \<^verbatim>\<open>__final_insertion_sort\<close>.\<close>

definition S_threshold :: nat where
  "S_threshold = 16"

definition final_insertion_sort ::
  "('a \<Rightarrow> 'a \<Rightarrow> bool) \<Rightarrow> 'a list \<Rightarrow> nat \<Rightarrow> nat \<Rightarrow> 'a list" where
  "final_insertion_sort lt xs first last' =
     (if last' - first > S_threshold
      then unguarded_insertion_sort lt (insertion_sort lt xs first (first + S_threshold))
             (first + S_threshold) last'
      else insertion_sort lt xs first last')"

text \<open>
  The heap functions, which sort a range once the depth limit of the partitioning is
  used up. Their distances are signed in the library; they are natural numbers here,
  whose truncated subtraction gives the same quotients for the lengths that occur (at
  least 1 in \<^verbatim>\<open>__adjust_heap\<close>).
\<close>

function push_heap ::
  "('a \<Rightarrow> 'a \<Rightarrow> bool) \<Rightarrow> 'a list \<Rightarrow> nat \<Rightarrow> nat \<Rightarrow> nat \<Rightarrow> 'a \<Rightarrow> 'a list" where
  "push_heap lt xs first holeIndex topIndex val =
     (if holeIndex > topIndex \<and> lt (xs ! (first + (holeIndex - 1) div 2)) val
      then push_heap lt (xs[first + holeIndex := xs ! (first + (holeIndex - 1) div 2)])
             first ((holeIndex - 1) div 2) topIndex val
      else xs[first + holeIndex := val])"
  by pat_completeness auto
termination
  by (relation "measure (\<lambda>(lt, xs, first, holeIndex, topIndex, val). holeIndex)") auto

declare push_heap.simps [simp del]

function adjust_heap_loop ::
  "('a \<Rightarrow> 'a \<Rightarrow> bool) \<Rightarrow> 'a list \<Rightarrow> nat \<Rightarrow> nat \<Rightarrow> nat \<Rightarrow> nat \<Rightarrow> 'a list \<times> nat \<times> nat" where
  "adjust_heap_loop lt xs first holeIndex len secondChild =
     (if secondChild < (len - 1) div 2
      then let c = 2 * (secondChild + 1);
               c' = (if lt (xs ! (first + c)) (xs ! (first + (c - 1))) then c - 1 else c)
           in adjust_heap_loop lt (xs[first + holeIndex := xs ! (first + c')]) first c' len c'
      else (xs, holeIndex, secondChild))"
  by pat_completeness auto
termination
  by (relation "measure (\<lambda>(lt, xs, first, holeIndex, len, secondChild). len - secondChild)")
    (auto simp: Let_def)

declare adjust_heap_loop.simps [simp del]

definition adjust_heap ::
  "('a \<Rightarrow> 'a \<Rightarrow> bool) \<Rightarrow> 'a list \<Rightarrow> nat \<Rightarrow> nat \<Rightarrow> nat \<Rightarrow> 'a \<Rightarrow> 'a list" where
  "adjust_heap lt xs first holeIndex len val =
     (case adjust_heap_loop lt xs first holeIndex len holeIndex of
        (xs1, hole1, child1) \<Rightarrow>
          if even len \<and> child1 = (len - 2) div 2
          then let c = 2 * (child1 + 1)
               in push_heap lt (xs1[first + hole1 := xs1 ! (first + (c - 1))]) first (c - 1)
                    holeIndex val
          else push_heap lt xs1 first hole1 holeIndex val)"

definition pop_heap ::
  "('a \<Rightarrow> 'a \<Rightarrow> bool) \<Rightarrow> 'a list \<Rightarrow> nat \<Rightarrow> nat \<Rightarrow> nat \<Rightarrow> 'a list" where
  "pop_heap lt xs first last' result =
     adjust_heap lt (xs[result := xs ! first]) first 0 (last' - first) (xs ! result)"

fun make_heap_loop ::
  "('a \<Rightarrow> 'a \<Rightarrow> bool) \<Rightarrow> 'a list \<Rightarrow> nat \<Rightarrow> nat \<Rightarrow> nat \<Rightarrow> 'a list" where
  "make_heap_loop lt xs first len parent =
     (if parent = 0 then adjust_heap lt xs first parent len (xs ! (first + parent))
      else make_heap_loop lt (adjust_heap lt xs first parent len (xs ! (first + parent)))
             first len (parent - 1))"

declare make_heap_loop.simps [simp del]

definition make_heap :: "('a \<Rightarrow> 'a \<Rightarrow> bool) \<Rightarrow> 'a list \<Rightarrow> nat \<Rightarrow> nat \<Rightarrow> 'a list" where
  "make_heap lt xs first last' =
     (if last' - first < 2 then xs
      else make_heap_loop lt xs first (last' - first) ((last' - first - 2) div 2))"

function sort_heap :: "('a \<Rightarrow> 'a \<Rightarrow> bool) \<Rightarrow> 'a list \<Rightarrow> nat \<Rightarrow> nat \<Rightarrow> 'a list" where
  "sort_heap lt xs first last' =
     (if last' - first > 1
      then sort_heap lt (pop_heap lt xs first (last' - 1) (last' - 1)) first (last' - 1)
      else xs)"
  by pat_completeness auto
termination
  by (relation "measure (\<lambda>(lt, xs, first, last'). last')") auto

declare sort_heap.simps [simp del]

function heap_select_loop ::
  "('a \<Rightarrow> 'a \<Rightarrow> bool) \<Rightarrow> 'a list \<Rightarrow> nat \<Rightarrow> nat \<Rightarrow> nat \<Rightarrow> nat \<Rightarrow> 'a list" where
  "heap_select_loop lt xs first middle i last' =
     (if i < last'
      then heap_select_loop lt
             (if lt (xs ! i) (xs ! first) then pop_heap lt xs first middle i else xs)
             first middle (Suc i) last'
      else xs)"
  by pat_completeness auto
termination
  by (relation "measure (\<lambda>(lt, xs, first, middle, i, last'). last' - i)") auto

declare heap_select_loop.simps [simp del]

definition heap_select ::
  "('a \<Rightarrow> 'a \<Rightarrow> bool) \<Rightarrow> 'a list \<Rightarrow> nat \<Rightarrow> nat \<Rightarrow> nat \<Rightarrow> 'a list" where
  "heap_select lt xs first middle last' =
     heap_select_loop lt (make_heap lt xs first middle) first middle middle last'"

definition partial_sort ::
  "('a \<Rightarrow> 'a \<Rightarrow> bool) \<Rightarrow> 'a list \<Rightarrow> nat \<Rightarrow> nat \<Rightarrow> nat \<Rightarrow> 'a list" where
  "partial_sort lt xs first middle last' =
     sort_heap lt (heap_select lt xs first middle last') first middle"

text \<open>
  \<^verbatim>\<open>__introsort_loop\<close>: a range longer than the threshold is partitioned; its upper
  part is treated by the recursive call, its lower part by the next round of the loop.
\<close>

function introsort_loop ::
  "('a \<Rightarrow> 'a \<Rightarrow> bool) \<Rightarrow> 'a list \<Rightarrow> nat \<Rightarrow> nat \<Rightarrow> nat \<Rightarrow> 'a list" where
  "introsort_loop lt xs first last' depth_limit =
     (if last' - first > S_threshold
      then if depth_limit = 0 then partial_sort lt xs first last' last'
           else case unguarded_partition_pivot lt xs first last' of
                  (cut', xs1) \<Rightarrow>
                    introsort_loop lt (introsort_loop lt xs1 cut' last' (depth_limit - 1))
                      first cut' (depth_limit - 1)
      else xs)"
  by pat_completeness auto
termination
  by (relation "measure (\<lambda>(lt, xs, first, last', depth_limit). depth_limit)") auto

declare introsort_loop.simps [simp del]

text \<open>\<^verbatim>\<open>std::__lg\<close>, the binary logarithm rounded down, and \<^verbatim>\<open>std::sort\<close> itself.\<close>

definition lg :: "nat \<Rightarrow> nat" where
  "lg n = floorlog 2 n - 1"

definition std_sort :: "('a \<Rightarrow> 'a \<Rightarrow> bool) \<Rightarrow> 'a list \<Rightarrow> 'a list" where
  "std_sort lt xs =
     (if length xs = 0 then xs
      else final_insertion_sort lt (introsort_loop lt xs 0 (length xs) (lg (length xs) * 2))
             0 (length xs))"

subsection \<open>Names of the specification\<close>

text \<open>
  The specification names the failures; the source tells them apart by their messages.
  An invalid index is either of the two failures of \<^verbatim>\<open>getDevice\<close>.
\<close>

definition InvalidIndexError :: "error \<Rightarrow> bool" where
  "InvalidIndexError e =
     (e = runtime_error ''Negative device number requested.'' \<or>
      e = runtime_error ''Invalid device number requested.'')"

definition SelfLinkError :: error where
  "SelfLinkError = runtime_error ''Cannot link device to itself.''"

definition SubscriptionError :: error where
  "SubscriptionError = runtime_error ''Unable to register master audio endpoint volume callback.''"

text \<open>The manager is linked: the link is flagged active and both pointers are set.\<close>

definition Linked :: "manager \<Rightarrow> IAudioEndpointVolume \<Rightarrow> IAudioEndpointVolume \<Rightarrow> bool" where
  "Linked m hm hs =
     (m_bLinkActive m \<and> m_pMasterEndptVol m = Some hm \<and> m_pSlaveEndptVol m = Some hs)"

text \<open>
  The platform agrees with the manager when the callback is registered on the master
  interface of an active link and nowhere else.
\<close>

definition registered :: "manager \<Rightarrow> IAudioEndpointVolume set" where
  "registered m =
     (if m_bLinkActive m
      then (case m_pMasterEndptVol m of Some h \<Rightarrow> {h} | None \<Rightarrow> {})
      else {})"

subsection \<open>What the operations are observed to do\<close>

text \<open>The platform calls of one \<^verbatim>\<open>unlinkDevices\<close>, read off the manager it starts from.\<close>

definition unlink_calls :: "manager \<Rightarrow> com_call list" where
  "unlink_calls m =
     (if m_bLinkActive m
      then (case m_pMasterEndptVol m of Some h \<Rightarrow> [UnregisterControlChangeNotify h] | None \<Rightarrow> [])
      else []) @
     (case m_pMasterEndptVol m of Some h \<Rightarrow> [Release h] | None \<Rightarrow> []) @
     (case m_pSlaveEndptVol m of Some h \<Rightarrow> [Release h] | None \<Rightarrow> [])"

text \<open>
  What \<^verbatim>\<open>_setSlaveVolume\<close> asks of the slave interface \<open>h\<close> in the platform state \<open>w\<close>:
  the volume, and the mute state once the volume has been accepted.
\<close>

definition relay_calls :: "world \<Rightarrow> IAudioEndpointVolume \<Rightarrow> float32 \<Rightarrow> bool \<Rightarrow> GUID \<Rightarrow> com_call list" where
  "relay_calls w h v b g =
     SetMasterVolumeLevelScalar h v g #
     (if SUCCEEDED w (SetMasterVolumeLevelScalar h v g) then [SetMute h b g] else [])"

text \<open>What \<^verbatim>\<open>_updateDialog\<close> posts, and what the handler posts when the relay has failed.\<close>

definition dialog_update :: "manager \<Rightarrow> float32 \<Rightarrow> bool \<Rightarrow> ui_effect list" where
  "dialog_update m v b =
     (case m_hDialog m of
        None \<Rightarrow> []
      | Some hDlg \<Rightarrow>
          [PostMessage (DlgItem hDlg (static_cast_int (m_iMuteCheckboxID m))) (BM_SETCHECK b),
           PostMessage (DlgItem hDlg (static_cast_int (m_iVolumeSliderID m)))
             (TBM_SETPOS (sliderVolume v))])"

definition fatal_report :: "HWND \<Rightarrow> ui_effect list" where
  "fatal_report hDlg = [MessageBoxW hDlg fatal_message, PostMessage (Dialog hDlg) WM_CLOSE]"



subsection \<open>States to run the operations on\<close>

text \<open>
  Enumerators on which every call succeeds: one with the endpoints Speakers and
  Headphones, one with Speakers, speakers and Headphones, in these orders, and one with
  seventeen endpoints that are all named Speakers, with the identifiers a to q.
\<close>

definition endpoint_named :: "string \<Rightarrow> string \<Rightarrow> raw_endpoint" where
  "endpoint_named i n =
     \<lparr>item_ok = True, id_ok = True, props_ok = True, name_ok = True,
      ep_id = wstr i, ep_name = wstr n\<rparr>"

definition two_endpoints :: audio_subsystem where
  "two_endpoints =
     \<lparr>create_ok = True, enum_ok = True, count_ok = True,
      collection = [endpoint_named ''id-s'' ''Speakers'', endpoint_named ''id-h'' ''Headphones'']\<rparr>"



text \<open>
  The manager constructed from the two endpoints with process GUID 7: before any link;
  linked from device 0 (Headphones, endpoint 1) to device 1 (Speakers, endpoint 0);
  and linked with dialog 5 attached.
\<close>

definition two_devices :: "AudioDevice list" where
  "two_devices =
     [\<lparr>m_iItemOffset = 1, m_pEndpoint = 1, m_wsId = wstr ''id-h'', m_wsName = wstr ''Headphones''\<rparr>,
      \<lparr>m_iItemOffset = 0, m_pEndpoint = 0, m_wsId = wstr ''id-s'', m_wsName = wstr ''Speakers''\<rparr>]"

definition unlinked_manager :: manager where
  "unlinked_manager =
     \<lparr>m_exitCode = 0, m_processGUID = 7, m_hDialog = None, m_iMuteCheckboxID = 0,
      m_iVolumeSliderID = 0, m_collectionCount = 2, m_audioDevices = two_devices,
      m_bLinkActive = False, m_iMasterDeviceIdx = - 1, m_iSlaveDeviceIdx = - 1,
      m_pMasterEndptVol = None, m_pSlaveEndptVol = None\<rparr>"

definition linked_manager :: manager where
  "linked_manager =
     \<lparr>m_exitCode = 0, m_processGUID = 7, m_hDialog = None, m_iMuteCheckboxID = 0,
      m_iVolumeSliderID = 0, m_collectionCount = 2, m_audioDevices = two_devices,
      m_bLinkActive = True, m_iMasterDeviceIdx = 0, m_iSlaveDeviceIdx = 1,
      m_pMasterEndptVol = Some 1, m_pSlaveEndptVol = Some 0\<rparr>"

definition linked_manager_dlg :: manager where
  "linked_manager_dlg = setDialog linked_manager (Some 5) 1001 1002"

text \<open>
  Platform states with a given behaviour, no calls made, every endpoint at volume 0.5
  and not muted: with the callback registered on endpoint 1, and with no registration.
  The behaviours accept every call, refuse every call, refuse the registration of the
  callback only, or refuse the reading of the mute state only.
\<close>

definition world_of :: "(com_call list \<Rightarrow> com_call \<Rightarrow> bool) \<Rightarrow> world" where
  "world_of hresult =
     \<lparr>w_hresult = hresult, w_calls = [], w_volume = (\<lambda>h. Float32 1 (- 1)),
      w_mute = (\<lambda>h. False), w_notify = {1}, w_posted = []\<rparr>"

definition world_idle :: "(com_call list \<Rightarrow> com_call \<Rightarrow> bool) \<Rightarrow> world" where
  "world_idle hresult = (world_of hresult)\<lparr>w_notify := {}\<rparr>"

definition world_ok :: world where
  "world_ok = world_of (\<lambda>calls c. True)"

definition world_failing :: world where
  "world_failing = world_of (\<lambda>calls c. False)"

definition refuse_register :: "com_call list \<Rightarrow> com_call \<Rightarrow> bool" where
  "refuse_register calls c = (case c of RegisterControlChangeNotify h \<Rightarrow> False | _ \<Rightarrow> True)"

definition refuse_GetMute :: "com_call list \<Rightarrow> com_call \<Rightarrow> bool" where
  "refuse_GetMute calls c = (case c of GetMute h \<Rightarrow> False | _ \<Rightarrow> True)"

text \<open>
  A notification from another program, of the float nearest to 0.42, and one of the
  manager's own.
\<close>

definition notify_external :: AUDIO_VOLUME_NOTIFICATION_DATA where
  "notify_external = \<lparr>guidEventContext = 9, bMuted = False, fMasterVolume = Float32 14092861 (- 25)\<rparr>"

definition notify_own :: AUDIO_VOLUME_NOTIFICATION_DATA where
  "notify_own = \<lparr>guidEventContext = 7, bMuted = True, fMasterVolume = Float32 1 (- 2)\<rparr>"

section \<open>Properties\<close>

subsection \<open>Unlinking\<close>

lemma unlinkDevices_manager:
  "fst (unlinkDevices m w) =
     m\<lparr>m_bLinkActive := False, m_iMasterDeviceIdx := - 1, m_iSlaveDeviceIdx := - 1,
       m_pMasterEndptVol := None, m_pSlaveEndptVol := None\<rparr>"
  by (simp add: unlinkDevices_def Let_def)

lemma unlinkDevices_calls:
  "w_calls (snd (unlinkDevices m w)) = w_calls w @ unlink_calls m"
  by (simp add: unlinkDevices_def unlink_calls_def Let_def reset_ptr_def issue_def
      com_UnregisterControlChangeNotify_def split: option.splits)

text \<open>
  C6. \<^verbatim>\<open>unlinkDevices\<close> returns no error (it is total, and \<^verbatim>\<open>noexcept\<close> in the source).
  From any manager and platform state it leaves the link inactive, both indices at -1
  and both interface pointers null, having unregistered the callback of an active link
  and released the interfaces held. Unlinking the result again changes nothing, so any
  number of calls in a row equals one call.
\<close>

theorem unlinkDevices_idempotent:
  "(case unlinkDevices m w of (m', w') \<Rightarrow>
      unlinkDevices m' w' = (m', w') \<and>
      \<not> isLinkActive m' \<and> getMasterDeviceIdx m' = - 1 \<and> getSlaveDeviceIdx m' = - 1 \<and>
      m_pMasterEndptVol m' = None \<and> m_pSlaveEndptVol m' = None \<and>
      w_calls w' = w_calls w @ unlink_calls m \<and>
      ((\<lambda>(m, w). unlinkDevices m w) ^^ Suc n) (m, w) = (m', w'))"
proof -
  obtain m' w' where r: "unlinkDevices m w = (m', w')" by (cases "unlinkDevices m w")
  have m': "m' = m\<lparr>m_bLinkActive := False, m_iMasterDeviceIdx := - 1, m_iSlaveDeviceIdx := - 1,
       m_pMasterEndptVol := None, m_pSlaveEndptVol := None\<rparr>"
    using unlinkDevices_manager [of m w] r by simp
  have again: "unlinkDevices m' w' = (m', w')"
    by (simp add: m' unlinkDevices_def Let_def reset_ptr_def)
  have calls: "w_calls w' = w_calls w @ unlink_calls m"
    using unlinkDevices_calls [of m w] r by simp
  have iter: "((\<lambda>(m, w). unlinkDevices m w) ^^ Suc n) (m, w) = (m', w')"
  proof (induction n)
    case 0
    show ?case by (simp add: r)
  next
    case (Suc n)
    then show ?case by (simp add: again)
  qed
  show ?thesis
    unfolding r using again calls iter
    by (simp add: m' isLinkActive_def getMasterDeviceIdx_def getSlaveDeviceIdx_def)
qed

subsection \<open>Device lookup\<close>

text \<open>
  C8. \<^verbatim>\<open>getDevice\<close> fails, with an invalid-index error, exactly when the index is
  negative or at least the size of the catalog; otherwise it returns the device at that
  position of the sorted sequence. It is a function of the manager and returns no new
  manager: the catalog is what it was.
\<close>

theorem getDevice_bounds:
  "(if idx < 0 \<or> int (length (m_audioDevices m)) \<le> idx
    then \<exists>e. getDevice m idx = Inl e \<and> InvalidIndexError e
    else getDevice m idx = Inr (m_audioDevices m ! nat idx))"
  by (auto simp: getDevice_def InvalidIndexError_def)

subsection \<open>Linking a device to itself\<close>

text \<open>
  C7. For every index \<open>i\<close>, valid or not, and from every state, linked or not,
  \<^verbatim>\<open>linkDevices(i, i)\<close> throws the self-link error and leaves what \<^verbatim>\<open>unlinkDevices\<close>
  leaves: the link inactive, the indices at -1, the pointers null.
\<close>

theorem linkDevices_self:
  "linkDevices m w i i = (Some SelfLinkError, unlinkDevices m w) \<and>
   \<not> isLinkActive (fst (snd (linkDevices m w i i))) \<and>
   getMasterDeviceIdx (fst (snd (linkDevices m w i i))) = - 1 \<and>
   getSlaveDeviceIdx (fst (snd (linkDevices m w i i))) = - 1 \<and>
   m_pMasterEndptVol (fst (snd (linkDevices m w i i))) = None \<and>
   m_pSlaveEndptVol (fst (snd (linkDevices m w i i))) = None"
proof -
  have "link_register m w i i = (Some SelfLinkError, unlinkDevices m w)"
    by (simp add: link_register_def SelfLinkError_def split: prod.splits)
  then have eq: "linkDevices m w i i = (Some SelfLinkError, unlinkDevices m w)"
    by (simp add: linkDevices_def split: prod.splits)
  show ?thesis
    by (simp add: eq unlinkDevices_manager isLinkActive_def getMasterDeviceIdx_def
        getSlaveDeviceIdx_def)
qed

subsection \<open>The slider position\<close>

text \<open>\<open>ilog2\<close> is the binary exponent.\<close>

lemma ilog2_lower:
  assumes "0 < x"
  shows "2 powi (ilog2 x) \<le> x"
proof (cases "1 \<le> x")
  case True
  have n: "0 < \<lfloor>x\<rfloor>" using True by simp
  have b: "1 \<le> bitlen \<lfloor>x\<rfloor>" using n by (simp add: bitlen_alt_def)
  have "(2 :: int) ^ nat (bitlen \<lfloor>x\<rfloor> - 1) \<le> \<lfloor>x\<rfloor>"
    using bitlen_bounds [OF n] by simp
  then have "of_int ((2 :: int) ^ nat (bitlen \<lfloor>x\<rfloor> - 1)) \<le> (of_int \<lfloor>x\<rfloor> :: rat)"
    by (simp only: of_int_le_iff)
  also have "\<dots> \<le> x" by simp
  finally have "(2 :: rat) ^ nat (bitlen \<lfloor>x\<rfloor> - 1) \<le> x" by simp
  then show ?thesis
    using True b by (simp add: ilog2_def power_int_def)
next
  case False
  define c where "c = \<lceil>1 / x\<rceil>"
  define b where "b = bitlen (c - 1)"
  have "1 < 1 / x" using assms False by simp
  then have c: "2 \<le> c" unfolding c_def by (simp add: le_ceiling_iff)
  have b0: "0 \<le> b" unfolding b_def by (rule bitlen_nonneg)
  have "c - 1 < 2 ^ nat b"
    using bitlen_bounds [of "c - 1"] c unfolding b_def by simp
  then have "c \<le> 2 ^ nat b" by simp
  then have "(of_int c :: rat) \<le> of_int (2 ^ nat b)" by (simp only: of_int_le_iff)
  then have "(of_int c :: rat) \<le> 2 ^ nat b" by simp
  moreover have "1 / x \<le> of_int c" unfolding c_def by simp
  ultimately have "1 / x \<le> 2 ^ nat b" by (rule order_trans [rotated])
  then have "1 \<le> 2 ^ nat b * x" using assms by (simp add: field_simps)
  then have "1 / 2 ^ nat b \<le> x" by (simp add: field_simps)
  moreover have "ilog2 x = - b" using False by (simp add: ilog2_def b_def c_def)
  moreover have "(2 :: rat) powi (- b) = 1 / 2 ^ nat b"
    using b0 by (simp add: power_int_minus power_int_nonneg_exp field_simps)
  ultimately show ?thesis by simp
qed

lemma ilog2_upper:
  assumes "0 < x"
  shows "x < 2 powi (ilog2 x + 1)"
proof (cases "1 \<le> x")
  case True
  have n: "0 < \<lfloor>x\<rfloor>" using True by simp
  have b: "1 \<le> bitlen \<lfloor>x\<rfloor>" using n by (simp add: bitlen_alt_def)
  have "\<lfloor>x\<rfloor> < 2 ^ nat (bitlen \<lfloor>x\<rfloor>)" using bitlen_bounds [OF n] by simp
  then have "\<lfloor>x\<rfloor> + 1 \<le> 2 ^ nat (bitlen \<lfloor>x\<rfloor>)" by simp
  then have "(of_int (\<lfloor>x\<rfloor> + 1) :: rat) \<le> of_int (2 ^ nat (bitlen \<lfloor>x\<rfloor>))"
    by (simp only: of_int_le_iff)
  moreover have "x < of_int (\<lfloor>x\<rfloor> + 1)" by linarith
  ultimately have "x < of_int (2 ^ nat (bitlen \<lfloor>x\<rfloor>))" by (rule less_le_trans [rotated])
  then show ?thesis using True b by (simp add: ilog2_def power_int_def)
next
  case False
  define c where "c = \<lceil>1 / x\<rceil>"
  define b where "b = bitlen (c - 1)"
  have "1 < 1 / x" using assms False by simp
  then have c: "2 \<le> c" unfolding c_def by (simp add: le_ceiling_iff)
  have b1: "1 \<le> b" using c unfolding b_def by (simp add: bitlen_alt_def)
  have "2 ^ nat (b - 1) \<le> c - 1"
    using bitlen_bounds [of "c - 1"] c unfolding b_def by simp
  then have "(of_int (2 ^ nat (b - 1)) :: rat) \<le> of_int (c - 1)" by (simp only: of_int_le_iff)
  moreover have "of_int (c - 1) < 1 / x" unfolding c_def by linarith
  ultimately have "of_int (2 ^ nat (b - 1)) < 1 / x" by (rule le_less_trans)
  then have "2 ^ nat (b - 1) * x < 1" using assms by (simp add: field_simps)
  then have "x < 1 / 2 ^ nat (b - 1)" by (simp add: field_simps)
  moreover have "ilog2 x = - b" using False by (simp add: ilog2_def b_def c_def)
  moreover have "(2 :: rat) powi (- b + 1) = 1 / 2 ^ nat (b - 1)"
  proof -
    have "(2 :: rat) powi (- b + 1) = 2 powi (- (b - 1))" by simp
    also have "\<dots> = 1 / 2 powi (b - 1)" by (simp only: power_int_minus_divide)
    also have "\<dots> = 1 / 2 ^ nat (b - 1)" using b1 by (simp add: power_int_nonneg_exp)
    finally show ?thesis .
  qed
  ultimately show ?thesis by simp
qed

lemma round_half_even_of_int: "round_half_even (of_int n) = n"
  by (simp add: round_half_even_def)

lemma round_half_even_bounds: "\<lfloor>x\<rfloor> \<le> round_half_even x \<and> round_half_even x \<le> \<lfloor>x\<rfloor> + 1"
  by (simp add: round_half_even_def Let_def)

text \<open>A number with an integer mantissa of fewer than 54 bits is a double.\<close>

lemma to_double_exact:
  assumes x: "x = of_int M * 2 powi E" and M: "\<bar>M\<bar> < 2 ^ 53"
  shows "to_double x = x"
proof (cases "x = 0")
  case True
  then show ?thesis by (simp add: to_double_def)
next
  case False
  define q where "q = ilog2 \<bar>x\<bar> - 52"
  have p: "(0 :: rat) < 2 powi E" by simp
  have "2 powi (ilog2 \<bar>x\<bar>) \<le> \<bar>x\<bar>" using False by (intro ilog2_lower) simp
  also have "\<bar>x\<bar> = of_int \<bar>M\<bar> * 2 powi E" by (simp add: x abs_mult)
  also have "\<dots> < 2 ^ 53 * 2 powi E"
  proof -
    have "(of_int \<bar>M\<bar> :: rat) < of_int (2 ^ 53)" using M by (simp only: of_int_less_iff)
    then show ?thesis using p by (simp del: of_int_abs)
  qed
  also have "\<dots> = 2 powi (53 + E)" by (simp add: power_int_add)
  finally have lt: "(2 :: rat) powi (ilog2 \<bar>x\<bar>) < 2 powi (53 + E)" .
  have "ilog2 \<bar>x\<bar> < 53 + E"
  proof (rule ccontr)
    assume "\<not> ilog2 \<bar>x\<bar> < 53 + E"
    then have "(2 :: rat) powi (53 + E) \<le> 2 powi (ilog2 \<bar>x\<bar>)"
      by (intro power_int_increasing) simp_all
    then show False using lt by simp
  qed
  then have qE: "q \<le> E" by (simp add: q_def)
  have "x / 2 powi q = of_int M * 2 powi (E - q)"
    by (simp add: x power_int_diff)
  also have "\<dots> = of_int (M * 2 ^ nat (E - q))"
    using qE by (simp add: power_int_nonneg_exp)
  finally have r: "round_half_even (x / 2 powi q) = M * 2 ^ nat (E - q)"
    by (simp only: round_half_even_of_int)
  have "to_double x = of_int (M * 2 ^ nat (E - q)) * 2 powi q"
    using False r by (simp add: to_double_def q_def Let_def)
  also have "\<dots> = of_int M * (2 powi (E - q) * 2 powi q)"
    using qE by (simp add: power_int_nonneg_exp)
  also have "2 powi (E - q) * 2 powi q = (2 :: rat) powi E"
    by (simp flip: power_int_add)
  finally show ?thesis by (simp add: x)
qed

text \<open>The product by 100 of a float is a double.\<close>

lemma double_mult_100:
  assumes "\<bar>mant v\<bar> < 2 ^ 24"
  shows "double_mult (of_int MAX_VOL) (valof v) = 100 * valof v"
proof -
  have "100 * valof v = of_int (100 * mant v) * 2 powi (expo v)"
    by (simp add: valof_def)
  moreover have "\<bar>100 * mant v\<bar> < 2 ^ 53" using assms by simp
  ultimately have "to_double (100 * valof v) = 100 * valof v"
    by (rule to_double_exact)
  then show ?thesis by (simp add: double_mult_def MAX_VOL_def)
qed

text \<open>
  For a float between 0 and 1 with an exponent of at least -46, the sum with one half is
  a double as well.
\<close>

lemma double_add_half_exact:
  assumes m: "0 \<le> mant v" and e: "- 46 \<le> expo v" and le: "valof v \<le> 1"
  shows "double_add (100 * valof v) (1 / 2) = 100 * valof v + 1 / 2"
proof -
  define M where "M = 100 * mant v * 2 ^ nat (expo v + 46) + 2 ^ 45"
  have "(2 :: rat) powi ((expo v + 46) + (- 46)) = 2 powi (expo v + 46) * 2 powi (- 46)"
    by (rule power_int_add) simp
  then have "(2 :: rat) powi (expo v + 46) * 2 powi (- 46) = 2 powi (expo v)"
    by simp
  then have pe: "(2 :: rat) ^ nat (expo v + 46) * 2 powi (- 46) = 2 powi (expo v)"
    using e by (simp add: power_int_nonneg_exp)
  have "of_int M * 2 powi (- 46) =
      100 * of_int (mant v) * ((2 :: rat) ^ nat (expo v + 46) * 2 powi (- 46)) + 2 ^ 45 * 2 powi (- 46)"
    by (simp add: M_def algebra_simps)
  also have "\<dots> = 100 * valof v + 1 / 2"
    unfolding pe by (simp add: valof_def power_int_minus)
  finally have s: "100 * valof v + 1 / 2 = of_int M * 2 powi (- 46)" by simp
  have "0 \<le> M" using m by (simp add: M_def)
  moreover have "M < 2 ^ 53"
  proof -
    have "(of_int M :: rat) = (100 * valof v + 1 / 2) * 2 ^ 46"
      by (simp add: s power_int_minus)
    also have "\<dots> \<le> (100 * 1 + 1 / 2) * 2 ^ 46"
      using le by (intro mult_right_mono add_right_mono mult_left_mono) simp_all
    also have "\<dots> < 2 ^ 53" by simp
    finally have "(of_int M :: rat) < of_int (2 ^ 53)" by simp
    then show ?thesis by (simp only: of_int_less_iff)
  qed
  ultimately have "\<bar>M\<bar> < 2 ^ 53" by simp
  with s have "to_double (100 * valof v + 1 / 2) = 100 * valof v + 1 / 2"
    by (rule to_double_exact)
  then show ?thesis by (simp add: double_add_def)
qed

text \<open>
  For a smaller exponent the float is below \<open>2 ^ - 23\<close>, and the sum, rounded, stays
  between one half and 1.
\<close>

lemma double_add_half_small:
  assumes x: "0 \<le> x" "x < 1 / 2 ^ 16"
  shows "0 \<le> double_add x (1 / 2) \<and> double_add x (1 / 2) < 1"
proof -
  define s where "s = x + 1 / 2"
  have s: "1 / 2 \<le> s" "s < 1 / 2 + 1 / 2 ^ 16" using x by (simp_all add: s_def)
  have "1 < 1 / s" "1 / s \<le> 2" using s by (simp_all add: field_simps)
  then have "\<lceil>1 / s\<rceil> = 2" by (simp add: ceiling_eq_iff)
  moreover have "bitlen 1 = 1" by (simp add: bitlen_alt_def)
  ultimately have i: "ilog2 \<bar>s\<bar> = - 1" using s by (simp add: ilog2_def)
  define y where "y = s / 2 powi (- 53)"
  have y: "y = s * 2 ^ 53" by (simp add: y_def power_int_minus)
  have y1: "2 ^ 52 \<le> y" and y2: "y < 2 ^ 52 + 2 ^ 37" using s unfolding y by simp_all
  have f1: "2 ^ 52 \<le> \<lfloor>y\<rfloor>" using y1 by (subst le_floor_iff) simp
  have f2: "\<lfloor>y\<rfloor> < 2 ^ 52 + 2 ^ 37" using y2 by (subst floor_less_iff) simp
  have r: "2 ^ 52 \<le> round_half_even y" "round_half_even y \<le> 2 ^ 52 + 2 ^ 37"
    using round_half_even_bounds [of y] f1 f2 by linarith+
  have t: "to_double s = of_int (round_half_even y) / 2 ^ 53"
    using s i by (simp add: to_double_def y_def power_int_minus)
  have "(of_int (2 ^ 52) :: rat) \<le> of_int (round_half_even y)"
    using r(1) by (simp only: of_int_le_iff)
  moreover have "(of_int (round_half_even y) :: rat) \<le> of_int (2 ^ 52 + 2 ^ 37)"
    using r(2) by (simp only: of_int_le_iff)
  ultimately have "0 \<le> to_double s \<and> to_double s < 1"
    unfolding t by (simp add: field_simps)
  then show ?thesis by (simp add: double_add_def s_def)
qed

lemma valof_small:
  assumes m: "0 \<le> mant v" "mant v < 2 ^ 24" and e: "expo v < - 46"
  shows "0 \<le> 100 * valof v \<and> 100 * valof v < 1 / 2 ^ 16"
proof -
  have "(2 :: rat) powi (expo v) \<le> 2 powi (- 47)"
    using e by (intro power_int_increasing) simp_all
  then have p: "(2 :: rat) powi (expo v) \<le> 1 / 2 ^ 47" by (simp add: power_int_minus)
  have "(of_int (mant v) :: rat) \<le> of_int (2 ^ 24)"
    using m(2) by (simp only: of_int_le_iff)
  then have "valof v \<le> 2 ^ 24 * (1 / 2 ^ 47)"
    unfolding valof_def using p m(1) by (intro mult_mono) simp_all
  moreover have "0 \<le> valof v" using m(1) by (simp add: valof_def)
  ultimately show ?thesis by simp
qed

lemma mant_nonneg:
  assumes "0 \<le> valof v"
  shows "0 \<le> mant v"
proof (rule ccontr)
  assume "\<not> 0 \<le> mant v"
  then have "(of_int (mant v) :: rat) < 0" by simp
  then have "valof v < 0" unfolding valof_def by (simp add: mult_less_0_iff)
  then show False using assms by simp
qed

lemma sliderVolume_round:
  assumes "is_float32 v" "0 \<le> valof v" "valof v \<le> 1"
  shows "sliderVolume v = \<lfloor>100 * valof v + 1 / 2\<rfloor>"
proof -
  have m: "0 \<le> mant v" "mant v < 2 ^ 24" "\<bar>mant v\<bar> < 2 ^ 24"
    using mant_nonneg [OF assms(2)] assms(1) by (simp_all add: is_float32_def)
  note p = double_mult_100 [OF m(3)]
  have sv: "sliderVolume v =
      (let s = truncate_double (double_add (100 * valof v) (1 / 2))
       in if s < 0 then 0 else if s > 100 then 100 else s)"
    unfolding sliderVolume_def p unfolding MAX_VOL_def by simp
  show ?thesis
  proof (cases "- 46 \<le> expo v")
    case True
    note a = double_add_half_exact [OF m(1) True assms(3)]
    have "0 \<le> \<lfloor>100 * valof v + 1 / 2\<rfloor>" using assms(2) by simp
    moreover have "\<lfloor>100 * valof v + 1 / 2\<rfloor> \<le> 100"
      using assms(3) by (simp add: floor_le_iff)
    ultimately show ?thesis
      using assms(2) by (simp add: sv a truncate_double_def Let_def)
  next
    case False
    then have e: "expo v < - 46" by simp
    note x = valof_small [OF m(1,2) e]
    have d: "0 \<le> double_add (100 * valof v) (1 / 2)" "double_add (100 * valof v) (1 / 2) < 1"
      using double_add_half_small [of "100 * valof v"] x by simp_all
    then have t: "\<lfloor>double_add (100 * valof v) (1 / 2)\<rfloor> = 0" by (simp add: floor_eq_iff)
    have "0 \<le> 100 * valof v + 1 / 2" "100 * valof v + 1 / 2 < 1" using x by simp_all
    then have f: "\<lfloor>100 * valof v + 1 / 2\<rfloor> = 0" by (simp add: floor_eq_iff)
    show ?thesis
      using d(1) by (simp add: sv truncate_double_def Let_def t f)
  qed
qed

text \<open>The float nearest to 0.42 has the position 42.\<close>

lemma sliderVolume_042: "sliderVolume (Float32 14092861 (- 25)) = 42"
proof -
  have v: "valof (Float32 14092861 (- 25)) = 14092861 / 2 ^ 25"
    by (simp add: valof_def power_int_minus field_simps)
  have "sliderVolume (Float32 14092861 (- 25)) = \<lfloor>100 * valof (Float32 14092861 (- 25)) + 1 / 2\<rfloor>"
    by (rule sliderVolume_round) (simp_all add: is_float32_def v)
  then show ?thesis by (simp add: v floor_eq_iff)
qed

text \<open>The clamps keep every position between 0 and 100.\<close>

lemma sliderVolume_range: "0 \<le> sliderVolume v \<and> sliderVolume v \<le> 100"
  by (simp add: sliderVolume_def MAX_VOL_def Let_def)

text \<open>
  Beyond the range of \<^verbatim>\<open>ptrdiff_t\<close> the position is 0: for the float \<open>2 ^ 64\<close>, say.
\<close>

lemma sliderVolume_beyond: "sliderVolume (Float32 1 64) = 0"
  by code_simp

text \<open>No float is 0.505: 101 / 200 is not a multiple of a power of two.\<close>

lemma valof_not_0505: "valof v \<noteq> 505 / 1000"
proof
  assume a: "valof v = 505 / 1000"
  show False
  proof (cases "0 \<le> expo v")
    case True
    have "of_int (200 * (mant v * 2 ^ nat (expo v))) = (of_int 101 :: rat)"
      using a True by (simp add: valof_def power_int_nonneg_exp)
    then have "200 * (mant v * 2 ^ nat (expo v)) = 101" by (simp only: of_int_eq_iff)
    then show False by presburger
  next
    case False
    define k where "k = nat (- expo v)"
    have "(2 :: rat) powi (expo v) = 1 / 2 ^ k"
      using False by (simp add: k_def power_int_def field_simps)
    then have "of_int (mant v) / 2 ^ k = (101 / 200 :: rat)"
      using a by (simp add: valof_def)
    then have "of_int (200 * mant v) = (of_int (101 * 2 ^ k) :: rat)"
      by (simp add: field_simps)
    then have eq: "200 * mant v = 101 * 2 ^ k" by (simp only: of_int_eq_iff)
    have "(5 :: int) dvd 200 * mant v" by simp
    then have "(5 :: int) dvd 101 * 2 ^ k" by (simp only: eq)
    moreover have "coprime (5 :: int) (2 ^ k)" by (intro coprime_power_right_iff [THEN iffD2]) simp
    ultimately have "(5 :: int) dvd 101" by (simp add: coprime_dvd_mult_left_iff)
    then show False by simp
  qed
qed

text \<open>
  C9, as the source has it. For every float volume between 0 and 1 the slider position
  is the volume times 100 rounded to the nearest integer, halves up; every position
  lies between 0 and 100; 0.0 gives 0 and 1.0 gives 100. The parameter is a float, and
  no float is 0.505.
\<close>

theorem sliderVolume_half_up:
  "(is_float32 v \<and> 0 \<le> valof v \<and> valof v \<le> 1 \<longrightarrow>
      sliderVolume v = \<lfloor>100 * valof v + 1 / 2\<rfloor>) \<and>
   0 \<le> sliderVolume v \<and> sliderVolume v \<le> 100 \<and>
   valof (Float32 0 0) = 0 \<and> sliderVolume (Float32 0 0) = 0 \<and>
   valof (Float32 1 0) = 1 \<and> sliderVolume (Float32 1 0) = 100 \<and>
   valof v \<noteq> 505 / 1000"
proof -
  have zero: "valof (Float32 0 0) = 0" and one: "valof (Float32 1 0) = 1"
    by (simp_all add: valof_def)
  have "sliderVolume (Float32 0 0) = \<lfloor>100 * valof (Float32 0 0) + 1 / 2\<rfloor>"
    by (rule sliderVolume_round) (simp_all add: is_float32_def zero)
  then have s0: "sliderVolume (Float32 0 0) = 0" by (simp add: zero floor_eq_iff)
  have "sliderVolume (Float32 1 0) = \<lfloor>100 * valof (Float32 1 0) + 1 / 2\<rfloor>"
    by (rule sliderVolume_round) (simp_all add: is_float32_def one)
  then have s1: "sliderVolume (Float32 1 0) = 100" by (simp add: one floor_eq_iff)
  show ?thesis
    using sliderVolume_round [of v] sliderVolume_range [of v] valof_not_0505 [of v] zero one s0 s1
    by blast
qed

theorem sliderVolume_half_up_witness:
  "is_float32 (Float32 1 (- 3)) \<and> valof (Float32 1 (- 3)) = 1 / 8 \<and>
   sliderVolume (Float32 1 (- 3)) = 13"
proof -
  have v: "valof (Float32 1 (- 3)) = 1 / 8" by (simp add: valof_def)
  have f: "is_float32 (Float32 1 (- 3))" by (simp add: is_float32_def)
  have "sliderVolume (Float32 1 (- 3)) = \<lfloor>100 * valof (Float32 1 (- 3)) + 1 / 2\<rfloor>"
    using sliderVolume_half_up [of "Float32 1 (- 3)"] f by (simp add: v)
  then show ?thesis using f by (simp add: v floor_eq_iff)
qed

text \<open>
  The claim as it stands fails at 0.505: the float nearest to it, the one a float
  parameter holds for 0.505, is slightly smaller (its successor is farther away on the
  other side), and its position is 50.
\<close>

theorem sliderVolume_nearest_0505:
  "is_float32 (Float32 8472494 (- 24)) \<and>
   valof (Float32 8472494 (- 24)) < 505 / 1000 \<and>
   505 / 1000 < valof (Float32 8472495 (- 24)) \<and>
   505 / 1000 - valof (Float32 8472494 (- 24)) < valof (Float32 8472495 (- 24)) - 505 / 1000 \<and>
   sliderVolume (Float32 8472494 (- 24)) = 50"
proof -
  have lo: "valof (Float32 8472494 (- 24)) = 8472494 / 2 ^ 24"
    and hi: "valof (Float32 8472495 (- 24)) = 8472495 / 2 ^ 24"
    by (simp_all add: valof_def power_int_minus field_simps)
  have f: "is_float32 (Float32 8472494 (- 24))" by (simp add: is_float32_def)
  have "sliderVolume (Float32 8472494 (- 24)) = \<lfloor>100 * valof (Float32 8472494 (- 24)) + 1 / 2\<rfloor>"
    by (rule sliderVolume_round) (simp_all add: f lo)
  then have "sliderVolume (Float32 8472494 (- 24)) = 50" by (simp add: lo floor_eq_iff)
  then show ?thesis using f by (simp add: lo hi)
qed

subsection \<open>The platform calls and the message queue\<close>

lemma post_simps [simp]:
  "w_calls (post e w) = w_calls w" "w_hresult (post e w) = w_hresult w"
  "w_volume (post e w) = w_volume w" "w_mute (post e w) = w_mute w"
  "w_notify (post e w) = w_notify w" "w_posted (post e w) = w_posted w @ [e]"
  by (simp_all add: post_def)

lemma updateDialog_simps [simp]:
  "w_calls (updateDialog m w v b) = w_calls w" "w_hresult (updateDialog m w v b) = w_hresult w"
  "w_volume (updateDialog m w v b) = w_volume w" "w_mute (updateDialog m w v b) = w_mute w"
  "w_notify (updateDialog m w v b) = w_notify w"
  "w_posted (updateDialog m w v b) = w_posted w @ dialog_update m v b"
  by (simp_all add: updateDialog_def dialog_update_def split: option.splits)

lemma SUCCEEDED_cong:
  "w_calls w' = w_calls w \<Longrightarrow> w_hresult w' = w_hresult w \<Longrightarrow> SUCCEEDED w' c = SUCCEEDED w c"
  by (simp add: SUCCEEDED_def)

text \<open>
  The slave is set through the audio platform alone: the outcome and the calls depend
  on the calls so far and the platform's behaviour, not on the message queue, which
  stays as it is.
\<close>

lemma setSlaveVolume_result:
  assumes "m_pSlaveEndptVol m = Some hs"
  shows "fst (setSlaveVolume m w v b) =
           (SUCCEEDED w (SetMasterVolumeLevelScalar hs v (m_processGUID m)) \<and>
            w_hresult w (w_calls w @ [SetMasterVolumeLevelScalar hs v (m_processGUID m)])
              (SetMute hs b (m_processGUID m)))"
    and "w_calls (snd (setSlaveVolume m w v b)) =
           w_calls w @ relay_calls w hs v b (m_processGUID m)"
    and "w_posted (snd (setSlaveVolume m w v b)) = w_posted w"
    and "w_notify (snd (setSlaveVolume m w v b)) = w_notify w"
    and "w_hresult (snd (setSlaveVolume m w v b)) = w_hresult w"
    and "fst (setSlaveVolume m w v b) \<Longrightarrow>
           w_volume (snd (setSlaveVolume m w v b)) hs = v \<and>
           w_mute (snd (setSlaveVolume m w v b)) hs = b"
  using assms
  by (auto simp: setSlaveVolume_def relay_calls_def com_SetMasterVolumeLevelScalar_def
      com_SetMute_def SUCCEEDED_def issue_def split: prod.splits if_splits)

lemma setSlaveVolume_posted:
  assumes "w_calls w' = w_calls w" "w_hresult w' = w_hresult w"
  shows "fst (setSlaveVolume m w' v b) = fst (setSlaveVolume m w v b)"
    and "w_calls (snd (setSlaveVolume m w' v b)) = w_calls (snd (setSlaveVolume m w v b))"
    and "w_posted (snd (setSlaveVolume m w' v b)) = w_posted w'"
  using assms
  by (auto simp: setSlaveVolume_def com_SetMasterVolumeLevelScalar_def
      com_SetMute_def SUCCEEDED_def issue_def split: prod.splits if_splits option.splits)

subsection \<open>The notification handler\<close>

text \<open>The handler on a linked manager, with the platform state after the dialog update named.\<close>

lemma onVolumeCallback_Linked:
  assumes "Linked m hm hs"
    and "w1 = (if guidEventContext n \<noteq> m_processGUID m
               then updateDialog m w (fMasterVolume n) (bMuted n) else w)"
    and "r = setSlaveVolume m w1 (fMasterVolume n) (bMuted n)"
  shows "onVolumeCallback m w n =
     (case m_hDialog m of
        Some hDlg \<Rightarrow>
          if \<not> fst r
          then (m\<lparr>m_exitCode := 1\<rparr>,
                post (PostMessage (Dialog hDlg) WM_CLOSE) (post (MessageBoxW hDlg fatal_message) (snd r)))
          else (m, snd r)
      | None \<Rightarrow> (m, snd r))"
  unfolding assms(2,3) using assms(1)
  by (cases "guidEventContext n = m_processGUID m")
    (simp_all add: onVolumeCallback_def Linked_def Let_def case_prod_beta)

lemma onVolumeCallback_calls:
  assumes "Linked m hm hs"
  shows "w_calls (snd (onVolumeCallback m w n)) =
           w_calls w @ relay_calls w hs (fMasterVolume n) (bMuted n) (m_processGUID m)"
proof -
  have hs: "m_pSlaveEndptVol m = Some hs" using assms by (simp add: Linked_def)
  define w1 where "w1 = (if guidEventContext n \<noteq> m_processGUID m
             then updateDialog m w (fMasterVolume n) (bMuted n) else w)"
  define r where "r = setSlaveVolume m w1 (fMasterVolume n) (bMuted n)"
  have same: "w_calls w1 = w_calls w" "w_hresult w1 = w_hresult w" by (simp_all add: w1_def)
  have "w_calls (snd r) =
          w_calls w @ relay_calls w hs (fMasterVolume n) (bMuted n) (m_processGUID m)"
    unfolding r_def using setSlaveVolume_posted(2) [OF same] setSlaveVolume_result(2) [OF hs]
    by simp
  then show ?thesis
    by (simp add: onVolumeCallback_Linked [OF assms w1_def r_def] split: option.splits)
qed

lemma onVolumeCallback_posted:
  assumes "Linked m hm hs"
  shows "w_posted (snd (onVolumeCallback m w n)) =
           w_posted w @
           (if guidEventContext n \<noteq> m_processGUID m
            then dialog_update m (fMasterVolume n) (bMuted n) else []) @
           (case m_hDialog m of
              Some hDlg \<Rightarrow>
                if fst (setSlaveVolume m w (fMasterVolume n) (bMuted n)) then [] else fatal_report hDlg
            | None \<Rightarrow> [])"
proof -
  define w1 where "w1 = (if guidEventContext n \<noteq> m_processGUID m
             then updateDialog m w (fMasterVolume n) (bMuted n) else w)"
  define r where "r = setSlaveVolume m w1 (fMasterVolume n) (bMuted n)"
  have same: "w_calls w1 = w_calls w" "w_hresult w1 = w_hresult w" by (simp_all add: w1_def)
  have p1: "w_posted w1 = w_posted w @
           (if guidEventContext n \<noteq> m_processGUID m
            then dialog_update m (fMasterVolume n) (bMuted n) else [])"
    by (simp add: w1_def)
  have r1: "fst r = fst (setSlaveVolume m w (fMasterVolume n) (bMuted n))"
    and r2: "w_posted (snd r) = w_posted w1"
    unfolding r_def using setSlaveVolume_posted(1,3) [OF same] by simp_all
  show ?thesis
    unfolding onVolumeCallback_Linked [OF assms w1_def r_def]
    by (cases "m_hDialog m") (simp_all add: r1 [symmetric] r2 p1 fatal_report_def)
qed

lemma onVolumeCallback_slave:
  assumes "Linked m hm hs" "fst (setSlaveVolume m w (fMasterVolume n) (bMuted n))"
  shows "w_volume (snd (onVolumeCallback m w n)) hs = fMasterVolume n"
    and "w_mute (snd (onVolumeCallback m w n)) hs = bMuted n"
    and "fst (onVolumeCallback m w n) = m"
proof -
  have hs: "m_pSlaveEndptVol m = Some hs" using assms by (simp add: Linked_def)
  define w1 where "w1 = (if guidEventContext n \<noteq> m_processGUID m
             then updateDialog m w (fMasterVolume n) (bMuted n) else w)"
  define r where "r = setSlaveVolume m w1 (fMasterVolume n) (bMuted n)"
  have same: "w_calls w1 = w_calls w" "w_hresult w1 = w_hresult w" by (simp_all add: w1_def)
  have ok: "fst r"
    unfolding r_def using setSlaveVolume_posted(1) [OF same] assms(2) by simp
  have v: "w_volume (snd r) hs = fMasterVolume n \<and> w_mute (snd r) hs = bMuted n"
    using setSlaveVolume_result(6) [OF hs, of w1] ok unfolding r_def by simp
  show "w_volume (snd (onVolumeCallback m w n)) hs = fMasterVolume n"
    and "w_mute (snd (onVolumeCallback m w n)) hs = bMuted n"
    and "fst (onVolumeCallback m w n) = m"
    using v ok
    by (simp_all add: onVolumeCallback_Linked [OF assms(1) w1_def r_def] split: option.splits)
qed

lemma onVolumeCallback_failed:
  assumes "Linked m hm hs" "\<not> fst (setSlaveVolume m w (fMasterVolume n) (bMuted n))"
  shows "fst (onVolumeCallback m w n) =
           (case m_hDialog m of Some hDlg \<Rightarrow> m\<lparr>m_exitCode := 1\<rparr> | None \<Rightarrow> m)"
proof -
  define w1 where "w1 = (if guidEventContext n \<noteq> m_processGUID m
             then updateDialog m w (fMasterVolume n) (bMuted n) else w)"
  define r where "r = setSlaveVolume m w1 (fMasterVolume n) (bMuted n)"
  have same: "w_calls w1 = w_calls w" "w_hresult w1 = w_hresult w" by (simp_all add: w1_def)
  have bad: "\<not> fst r"
    unfolding r_def using setSlaveVolume_posted(1) [OF same] assms(2) by simp
  show ?thesis
    using bad
    by (simp add: onVolumeCallback_Linked [OF assms(1) w1_def r_def] split: option.splits)
qed

text \<open>
  C1, as the source has it. While the manager is linked, the handler asks the slave
  interface for the notification's volume and, once that is accepted, its mute state,
  whatever the event context of the notification; when both are accepted the slave
  endpoint has these values. The dialog is told of the values, the mute state to the
  checkbox and the slider position of the volume to the slider, exactly when the event
  context differs from the process GUID and a dialog is attached to the manager; with
  no dialog attached nothing is posted. (The fatal report follows when the relay failed
  and a dialog is attached.)
\<close>

theorem onVolumeCallback_relay_and_signal:
  assumes "Linked m hm hs"
  shows "w_calls (snd (onVolumeCallback m w n)) =
           w_calls w @ relay_calls w hs (fMasterVolume n) (bMuted n) (m_processGUID m) \<and>
         (fst (setSlaveVolume m w (fMasterVolume n) (bMuted n)) \<longrightarrow>
            w_volume (snd (onVolumeCallback m w n)) hs = fMasterVolume n \<and>
            w_mute (snd (onVolumeCallback m w n)) hs = bMuted n) \<and>
         w_posted (snd (onVolumeCallback m w n)) =
           w_posted w @
           (case m_hDialog m of
              None \<Rightarrow> []
            | Some hDlg \<Rightarrow>
                (if guidEventContext n \<noteq> m_processGUID m
                 then [PostMessage (DlgItem hDlg (static_cast_int (m_iMuteCheckboxID m)))
                         (BM_SETCHECK (bMuted n)),
                       PostMessage (DlgItem hDlg (static_cast_int (m_iVolumeSliderID m)))
                         (TBM_SETPOS (sliderVolume (fMasterVolume n)))]
                 else []) @
                (if fst (setSlaveVolume m w (fMasterVolume n) (bMuted n)) then []
                 else fatal_report hDlg)) \<and>
         (\<forall>hDlg.
            (PostMessage (DlgItem hDlg (static_cast_int (m_iMuteCheckboxID m))) (BM_SETCHECK (bMuted n))
               \<in> set (drop (length (w_posted w)) (w_posted (snd (onVolumeCallback m w n))))) =
            (guidEventContext n \<noteq> m_processGUID m \<and> m_hDialog m = Some hDlg) \<and>
            (PostMessage (DlgItem hDlg (static_cast_int (m_iVolumeSliderID m)))
                 (TBM_SETPOS (sliderVolume (fMasterVolume n)))
               \<in> set (drop (length (w_posted w)) (w_posted (snd (onVolumeCallback m w n))))) =
            (guidEventContext n \<noteq> m_processGUID m \<and> m_hDialog m = Some hDlg))"
proof -
  have posted: "w_posted (snd (onVolumeCallback m w n)) =
           w_posted w @
           (case m_hDialog m of
              None \<Rightarrow> []
            | Some hDlg \<Rightarrow>
                (if guidEventContext n \<noteq> m_processGUID m
                 then [PostMessage (DlgItem hDlg (static_cast_int (m_iMuteCheckboxID m)))
                         (BM_SETCHECK (bMuted n)),
                       PostMessage (DlgItem hDlg (static_cast_int (m_iVolumeSliderID m)))
                         (TBM_SETPOS (sliderVolume (fMasterVolume n)))]
                 else []) @
                (if fst (setSlaveVolume m w (fMasterVolume n) (bMuted n)) then []
                 else fatal_report hDlg))"
    unfolding onVolumeCallback_posted [OF assms, of w n]
    by (cases "m_hDialog m") (simp_all add: dialog_update_def)
  have signal: "\<forall>hDlg.
            (PostMessage (DlgItem hDlg (static_cast_int (m_iMuteCheckboxID m))) (BM_SETCHECK (bMuted n))
               \<in> set (drop (length (w_posted w)) (w_posted (snd (onVolumeCallback m w n))))) =
            (guidEventContext n \<noteq> m_processGUID m \<and> m_hDialog m = Some hDlg) \<and>
            (PostMessage (DlgItem hDlg (static_cast_int (m_iVolumeSliderID m)))
                 (TBM_SETPOS (sliderVolume (fMasterVolume n)))
               \<in> set (drop (length (w_posted w)) (w_posted (snd (onVolumeCallback m w n))))) =
            (guidEventContext n \<noteq> m_processGUID m \<and> m_hDialog m = Some hDlg)"
    unfolding posted by (cases "m_hDialog m") (auto simp: fatal_report_def)
  show ?thesis
    using onVolumeCallback_calls [OF assms, of w n] onVolumeCallback_slave(1,2) [OF assms, of w n]
      posted signal
    by blast
qed

theorem onVolumeCallback_relay_and_signal_witness:
  "Linked linked_manager_dlg 1 0 \<and>
   w_calls (snd (onVolumeCallback linked_manager_dlg world_ok notify_external)) =
     [SetMasterVolumeLevelScalar 0 (Float32 14092861 (- 25)) 7, SetMute 0 False 7] \<and>
   w_volume (snd (onVolumeCallback linked_manager_dlg world_ok notify_external)) 0 =
     Float32 14092861 (- 25) \<and>
   w_mute (snd (onVolumeCallback linked_manager_dlg world_ok notify_external)) 0 = False \<and>
   w_posted (snd (onVolumeCallback linked_manager_dlg world_ok notify_external)) =
     [PostMessage (DlgItem 5 1001) (BM_SETCHECK False),
      PostMessage (DlgItem 5 1002) (TBM_SETPOS 42)] \<and>
   w_calls (snd (onVolumeCallback linked_manager_dlg world_ok notify_own)) =
     [SetMasterVolumeLevelScalar 0 (Float32 1 (- 2)) 7, SetMute 0 True 7] \<and>
   w_mute (snd (onVolumeCallback linked_manager_dlg world_ok notify_own)) 0 = True \<and>
   w_posted (snd (onVolumeCallback linked_manager_dlg world_ok notify_own)) = []"
proof -
  have l: "Linked linked_manager_dlg 1 0"
    by (simp add: Linked_def linked_manager_dlg_def linked_manager_def setDialog_def)
  have hs: "m_pSlaveEndptVol linked_manager_dlg = Some 0"
    using l by (simp add: Linked_def)
  have ok: "fst (setSlaveVolume linked_manager_dlg world_ok v b)" for v b
    using setSlaveVolume_result(1) [OF hs, of world_ok v b]
    by (simp add: world_ok_def world_of_def SUCCEEDED_def)
  have ids: "static_cast_int 1001 = 1001" "static_cast_int 1002 = 1002"
    by (simp_all add: static_cast_int_def)
  show ?thesis
    using l ok onVolumeCallback_relay_and_signal [OF l, of world_ok notify_external]
      onVolumeCallback_relay_and_signal [OF l, of world_ok notify_own]
    by (simp add: relay_calls_def SUCCEEDED_def notify_external_def
        notify_own_def linked_manager_dlg_def linked_manager_def setDialog_def world_ok_def
        world_of_def sliderVolume_042 ids)
qed

text \<open>
  The claim as it stands fails on a linked manager that no dialog is attached to: a
  notification from another program is relayed to the slave, and nothing is posted.
\<close>

theorem onVolumeCallback_external_unsignalled:
  "Linked linked_manager 1 0 \<and>
   guidEventContext notify_external \<noteq> m_processGUID linked_manager \<and>
   w_calls (snd (onVolumeCallback linked_manager world_ok notify_external)) =
     [SetMasterVolumeLevelScalar 0 (Float32 14092861 (- 25)) 7, SetMute 0 False 7] \<and>
   w_volume (snd (onVolumeCallback linked_manager world_ok notify_external)) 0 =
     Float32 14092861 (- 25) \<and>
   w_posted (snd (onVolumeCallback linked_manager world_ok notify_external)) = []"
  by (simp add: Linked_def linked_manager_def world_ok_def world_of_def
      notify_external_def onVolumeCallback_def setSlaveVolume_def updateDialog_def
      com_SetMasterVolumeLevelScalar_def com_SetMute_def SUCCEEDED_def issue_def)

text \<open>
  C4, as the source has it. When the relay to the slave fails while the manager is
  linked and a dialog is attached, the exit code becomes 1, and a message box and a
  \<^verbatim>\<open>WM_CLOSE\<close> to the dialog follow whatever else was posted. Without a dialog the
  failure is dropped: the manager is unchanged, exit code included, and nothing is
  posted.
\<close>

theorem onVolumeCallback_relay_failure:
  assumes "Linked m hm hs"
    and "\<not> fst (setSlaveVolume m w (fMasterVolume n) (bMuted n))"
  shows "(case m_hDialog m of
            Some hDlg \<Rightarrow>
              getExitCode (fst (onVolumeCallback m w n)) = 1 \<and>
              w_posted (snd (onVolumeCallback m w n)) =
                w_posted w @
                (if guidEventContext n \<noteq> m_processGUID m
                 then dialog_update m (fMasterVolume n) (bMuted n) else []) @
                [MessageBoxW hDlg fatal_message, PostMessage (Dialog hDlg) WM_CLOSE]
          | None \<Rightarrow>
              fst (onVolumeCallback m w n) = m \<and>
              w_posted (snd (onVolumeCallback m w n)) = w_posted w)"
  using onVolumeCallback_posted [OF assms(1), of w n] onVolumeCallback_failed [OF assms]
  by (cases "m_hDialog m")
    (simp_all add: assms(2) fatal_report_def getExitCode_def dialog_update_def)

theorem onVolumeCallback_relay_failure_witness:
  "Linked linked_manager_dlg 1 0 \<and>
   \<not> fst (setSlaveVolume linked_manager_dlg world_failing (fMasterVolume notify_own) (bMuted notify_own)) \<and>
   getExitCode (fst (onVolumeCallback linked_manager_dlg world_failing notify_own)) = 1 \<and>
   w_posted (snd (onVolumeCallback linked_manager_dlg world_failing notify_own)) =
     [MessageBoxW 5 fatal_message, PostMessage (Dialog 5) WM_CLOSE]"
proof -
  have l: "Linked linked_manager_dlg 1 0"
    by (simp add: Linked_def linked_manager_dlg_def linked_manager_def setDialog_def)
  have hs: "m_pSlaveEndptVol linked_manager_dlg = Some 0"
    using l by (simp add: Linked_def)
  have bad: "\<not> fst (setSlaveVolume linked_manager_dlg world_failing (fMasterVolume notify_own) (bMuted notify_own))"
    using setSlaveVolume_result(1) [OF hs, of world_failing "fMasterVolume notify_own" "bMuted notify_own"]
    by (simp add: world_failing_def world_of_def SUCCEEDED_def)
  show ?thesis
    using l bad onVolumeCallback_relay_failure [OF l bad]
    by (simp add: notify_own_def linked_manager_dlg_def linked_manager_def setDialog_def
        world_failing_def world_of_def)
qed

text \<open>
  The claim as it stands fails on a linked manager that no dialog is attached to: the
  relay fails, the exit code stays 0 and nothing is posted.
\<close>

theorem onVolumeCallback_relay_failure_dropped:
  "Linked linked_manager 1 0 \<and>
   \<not> fst (setSlaveVolume linked_manager world_failing (fMasterVolume notify_external)
           (bMuted notify_external)) \<and>
   getExitCode (fst (onVolumeCallback linked_manager world_failing notify_external)) = 0 \<and>
   w_posted (snd (onVolumeCallback linked_manager world_failing notify_external)) = []"
  by (simp add: Linked_def linked_manager_def world_failing_def world_of_def
      notify_external_def onVolumeCallback_def setSlaveVolume_def updateDialog_def
      com_SetMasterVolumeLevelScalar_def SUCCEEDED_def issue_def getExitCode_def)

subsection \<open>Setting the master\<close>

text \<open>
  C10. \<^verbatim>\<open>setMasterVolume\<close> and \<^verbatim>\<open>setMasterMute\<close> leave the manager as it is (link
  flag, indices, pointers and all). Each makes at most one platform call, on the master
  interface, carrying the argument as given and the process GUID; nothing is posted,
  no callback registration changes, and the state of every endpoint other than the
  master's (the slave's among them) is what it was: the slave is written by the
  notification handler only.
\<close>

theorem setMaster_frame:
  "fst (snd (setMasterVolume m w v)) = m \<and> fst (snd (setMasterMute m w b)) = m \<and>
   w_calls (snd (snd (setMasterVolume m w v))) =
     w_calls w @ (case m_pMasterEndptVol m of
                    None \<Rightarrow> []
                  | Some h \<Rightarrow> [SetMasterVolumeLevelScalar h v (m_processGUID m)]) \<and>
   w_calls (snd (snd (setMasterMute m w b))) =
     w_calls w @ (case m_pMasterEndptVol m of
                    None \<Rightarrow> []
                  | Some h \<Rightarrow> [SetMute h b (m_processGUID m)]) \<and>
   w_posted (snd (snd (setMasterVolume m w v))) = w_posted w \<and>
   w_posted (snd (snd (setMasterMute m w b))) = w_posted w \<and>
   w_notify (snd (snd (setMasterVolume m w v))) = w_notify w \<and>
   w_notify (snd (snd (setMasterMute m w b))) = w_notify w \<and>
   w_mute (snd (snd (setMasterVolume m w v))) = w_mute w \<and>
   w_volume (snd (snd (setMasterMute m w b))) = w_volume w \<and>
   (\<forall>h. m_pMasterEndptVol m \<noteq> Some h \<longrightarrow>
      w_volume (snd (snd (setMasterVolume m w v))) h = w_volume w h \<and>
      w_mute (snd (snd (setMasterMute m w b))) h = w_mute w h)"
  by (cases "m_pMasterEndptVol m")
    (auto simp: setMasterVolume_def setMasterMute_def com_SetMasterVolumeLevelScalar_def
      com_SetMute_def issue_def split: prod.splits if_splits)

theorem setMaster_frame_witness:
  "m_pMasterEndptVol linked_manager \<noteq> m_pSlaveEndptVol linked_manager \<and>
   m_pSlaveEndptVol linked_manager = Some 0 \<and>
   fst (snd (setMasterVolume linked_manager world_ok (Float32 3 (- 2)))) = linked_manager \<and>
   w_calls (snd (snd (setMasterVolume linked_manager world_ok (Float32 3 (- 2))))) =
     [SetMasterVolumeLevelScalar 1 (Float32 3 (- 2)) 7] \<and>
   w_volume (snd (snd (setMasterVolume linked_manager world_ok (Float32 3 (- 2))))) 0 =
     w_volume world_ok 0 \<and>
   w_mute (snd (snd (setMasterMute linked_manager world_ok True))) 0 = w_mute world_ok 0"
  using setMaster_frame [of linked_manager world_ok "Float32 3 (- 2)" True]
  by (simp add: linked_manager_def world_ok_def world_of_def)

subsection \<open>Linking\<close>

lemma unlinkDevices_notify:
  "w_notify w = registered m \<Longrightarrow> w_notify (snd (unlinkDevices m w)) = {}"
  by (auto simp: unlinkDevices_def registered_def Let_def reset_ptr_def issue_def
      com_UnregisterControlChangeNotify_def split: option.splits if_splits)

lemma unlinkDevices_posted [simp]:
  "w_posted (snd (unlinkDevices m w)) = w_posted w"
  by (simp add: unlinkDevices_def Let_def reset_ptr_def issue_def
      com_UnregisterControlChangeNotify_def split: option.splits)

text \<open>
  The first part of \<^verbatim>\<open>linkDevices\<close>, by the place where it ends: a throw before any
  pointer is assigned; a throw when the slave's activation fails, the master pointer
  assigned; a throw when the registration fails, both pointers assigned; or no throw,
  the link flagged, the indices set, the callback registered on the master.
\<close>

lemma activateAudioEndpointVolume_notify:
  "w_notify (snd (activateAudioEndpointVolume d w)) = w_notify w"
  by (simp add: activateAudioEndpointVolume_def com_Activate_def issue_def)

lemma com_RegisterControlChangeNotify_notify:
  "w_notify (snd (com_RegisterControlChangeNotify h w)) =
     (if fst (com_RegisterControlChangeNotify h w) then insert h (w_notify w) else w_notify w)"
  by (simp add: com_RegisterControlChangeNotify_def issue_def)

lemma com_RegisterControlChangeNotify_calls:
  "w_calls (snd (com_RegisterControlChangeNotify h w)) = w_calls w @ [RegisterControlChangeNotify h]"
  by (simp add: com_RegisterControlChangeNotify_def issue_def)

lemma link_register_cases:
  assumes u: "unlinkDevices m w = (m0, w0)"
  obtains
    (thrown) e w1 where
      "link_register m w a b = (Some e, m0, w1)" "w_notify w1 = w_notify w0"
  | (slave_failed) e hm w1 where
      "link_register m w a b = (Some e, m0\<lparr>m_pMasterEndptVol := Some hm\<rparr>, w1)"
      "w_notify w1 = w_notify w0"
  | (register_failed) hm hs w1 where
      "link_register m w a b =
         (Some SubscriptionError, m0\<lparr>m_pMasterEndptVol := Some hm, m_pSlaveEndptVol := Some hs\<rparr>, w1)"
      "w_notify w1 = w_notify w0"
  | (linked) hm hs w1 where
      "a \<noteq> b"
      "link_register m w a b =
         (None, m0\<lparr>m_pMasterEndptVol := Some hm, m_pSlaveEndptVol := Some hs,
                   m_bLinkActive := True, m_iMasterDeviceIdx := a, m_iSlaveDeviceIdx := b\<rparr>, w1)"
      "w_notify w1 = insert hm (w_notify w0)"
      "w_calls w1 \<noteq> [] \<and> last (w_calls w1) = RegisterControlChangeNotify hm"
proof (cases "a = b")
  case True
  have "link_register m w a b = (Some (runtime_error ''Cannot link device to itself.''), m0, w0)"
    by (simp add: link_register_def u True)
  then show ?thesis by (rule thrown) (rule refl)
next
  case ab: False
  show ?thesis
  proof (cases "getDevice m0 a")
    case e: (Inl e)
    have "link_register m w a b = (Some e, m0, w0)"
      by (simp add: link_register_def u ab e)
    then show ?thesis by (rule thrown) (rule refl)
  next
    case md: (Inr masterDevice)
    show ?thesis
    proof (cases "getDevice m0 b")
      case e: (Inl e)
      have "link_register m w a b = (Some e, m0, w0)"
        by (simp add: link_register_def u ab md e)
      then show ?thesis by (rule thrown) (rule refl)
    next
      case sd: (Inr slaveDevice)
      obtain r1 w1 where a1: "activateAudioEndpointVolume masterDevice w0 = (r1, w1)"
        by (cases "activateAudioEndpointVolume masterDevice w0")
      have n1: "w_notify w1 = w_notify w0"
        using activateAudioEndpointVolume_notify [of masterDevice w0] by (simp add: a1)
      show ?thesis
      proof (cases r1)
        case e: (Inl e)
        have "link_register m w a b = (Some e, m0, w1)"
          by (simp add: link_register_def u ab md sd a1 e)
        then show ?thesis by (rule thrown) (rule n1)
      next
        case hm: (Inr hm)
        obtain r2 w2 where a2: "activateAudioEndpointVolume slaveDevice w1 = (r2, w2)"
          by (cases "activateAudioEndpointVolume slaveDevice w1")
        have n2: "w_notify w2 = w_notify w0"
          using activateAudioEndpointVolume_notify [of slaveDevice w1] by (simp add: a2 n1)
        show ?thesis
        proof (cases r2)
          case e: (Inl e)
          have "link_register m w a b = (Some e, m0\<lparr>m_pMasterEndptVol := Some hm\<rparr>, w2)"
            by (simp add: link_register_def u ab md sd a1 hm a2 e)
          then show ?thesis by (rule slave_failed) (rule n2)
        next
          case hs: (Inr hs)
          obtain ok w3 where rg: "com_RegisterControlChangeNotify hm w2 = (ok, w3)"
            by (cases "com_RegisterControlChangeNotify hm w2")
          show ?thesis
          proof (cases ok)
            case ok: True
            have n3: "w_notify w3 = insert hm (w_notify w0)"
              using com_RegisterControlChangeNotify_notify [of hm w2] by (simp add: rg ok n2)
            have c3: "w_calls w3 \<noteq> [] \<and> last (w_calls w3) = RegisterControlChangeNotify hm"
              using com_RegisterControlChangeNotify_calls [of hm w2] by (simp add: rg)
            have "link_register m w a b =
                (None, m0\<lparr>m_pMasterEndptVol := Some hm, m_pSlaveEndptVol := Some hs,
                   m_bLinkActive := True, m_iMasterDeviceIdx := a, m_iSlaveDeviceIdx := b\<rparr>, w3)"
              by (simp add: link_register_def u ab md sd a1 hm a2 hs rg ok)
            then show ?thesis by (rule linked [OF ab _ n3 c3])
          next
            case ok: False
            have n3: "w_notify w3 = w_notify w0"
              using com_RegisterControlChangeNotify_notify [of hm w2] by (simp add: rg ok n2)
            have "link_register m w a b =
                (Some SubscriptionError,
                 m0\<lparr>m_pMasterEndptVol := Some hm, m_pSlaveEndptVol := Some hs\<rparr>, w3)"
              by (simp add: link_register_def u ab md sd a1 hm a2 hs rg ok SubscriptionError_def)
            then show ?thesis by (rule register_failed) (rule n3)
          qed
        qed
      qed
    qed
  qed
qed

lemma link_register_thrown:
  assumes "link_register m w a b = (Some e, m1, w1)"
  shows "\<not> m_bLinkActive m1 \<and> m_iMasterDeviceIdx m1 = - 1 \<and> m_iSlaveDeviceIdx m1 = - 1"
proof -
  obtain m0 w0 where u: "unlinkDevices m w = (m0, w0)" by (cases "unlinkDevices m w")
  have m0: "\<not> m_bLinkActive m0 \<and> m_iMasterDeviceIdx m0 = - 1 \<and> m_iSlaveDeviceIdx m0 = - 1"
    using unlinkDevices_manager [of m w] u by simp
  show ?thesis
    using assms m0 by (cases rule: link_register_cases [OF u, of a b]) auto
qed

lemma link_register_done:
  assumes "link_register m w a b = (None, m1, w1)"
  shows "m_bLinkActive m1 \<and> m_iMasterDeviceIdx m1 = a \<and> m_iSlaveDeviceIdx m1 = b \<and>
         m_pMasterEndptVol m1 \<noteq> None \<and> m_pSlaveEndptVol m1 \<noteq> None \<and> a \<noteq> b"
proof -
  obtain m0 w0 where u: "unlinkDevices m w = (m0, w0)" by (cases "unlinkDevices m w")
  show ?thesis
    using assms by (cases rule: link_register_cases [OF u, of a b]) auto
qed

lemma link_register_notify:
  assumes "link_register m w a b = (r, m1, w1)" "w_notify w = registered m"
  shows "w_notify w1 = registered m1"
proof -
  obtain m0 w0 where u: "unlinkDevices m w = (m0, w0)" by (cases "unlinkDevices m w")
  have n0: "w_notify w0 = {}" using unlinkDevices_notify [OF assms(2)] u by simp
  have m0: "\<not> m_bLinkActive m0" using unlinkDevices_manager [of m w] u by simp
  show ?thesis
    using assms(1) n0 m0
    by (cases rule: link_register_cases [OF u, of a b]) (auto simp: registered_def)
qed

text \<open>
  The second part. When it throws, \<^verbatim>\<open>unlinkDevices\<close> has run last; when it does not,
  the manager is as it was.
\<close>

lemma link_sync_manager:
  "fst (snd (link_sync m w)) =
     (if fst (link_sync m w) = None then m
      else m\<lparr>m_bLinkActive := False, m_iMasterDeviceIdx := - 1, m_iSlaveDeviceIdx := - 1,
             m_pMasterEndptVol := None, m_pSlaveEndptVol := None\<rparr>)"
  using unlinkDevices_manager [of m]
  by (simp add: link_sync_def case_prod_beta split: option.splits bool.splits)

lemma setSlaveVolume_notify:
  "w_notify (snd (setSlaveVolume m w v b)) = w_notify w"
proof (cases "m_pSlaveEndptVol m")
  case None
  then show ?thesis by (simp add: setSlaveVolume_def)
next
  case (Some hs)
  then show ?thesis by (rule setSlaveVolume_result(4))
qed

lemma link_sync_notify:
  assumes "w_notify w = registered m"
  shows "w_notify (snd (snd (link_sync m w))) = registered (fst (snd (link_sync m w)))"
proof -
  have un: "w_notify (snd (unlinkDevices m w')) = registered (fst (unlinkDevices m w'))"
    if "w_notify w' = registered m" for w'
    using unlinkDevices_notify [OF that] by (simp add: unlinkDevices_manager registered_def)
  obtain r1 w1 where g1: "com_GetMute (the (m_pMasterEndptVol m)) w = (r1, w1)"
    by (cases "com_GetMute (the (m_pMasterEndptVol m)) w")
  have n1: "w_notify w1 = registered m"
    using arg_cong [OF g1, of "\<lambda>r. w_notify (snd r)"] assms
    by (simp add: com_GetMute_def issue_def)
  obtain r2 w2 where g2: "com_GetMasterVolumeLevelScalar (the (m_pMasterEndptVol m)) w1 = (r2, w2)"
    by (cases "com_GetMasterVolumeLevelScalar (the (m_pMasterEndptVol m)) w1")
  have n2: "w_notify w2 = registered m"
    using arg_cong [OF g2, of "\<lambda>r. w_notify (snd r)"] n1
    by (simp add: com_GetMasterVolumeLevelScalar_def issue_def)
  have n3: "w_notify (snd (setSlaveVolume m w2 v b)) = registered m" for v b
    by (simp add: setSlaveVolume_notify n2)
  show ?thesis
  proof (cases r1)
    case None
    then show ?thesis
      using un [OF n1] by (simp add: link_sync_def g1 case_prod_beta)
  next
    case (Some muted)
    note r1 = this
    show ?thesis
    proof (cases r2)
      case None
      then show ?thesis
        using un [OF n2] by (simp add: link_sync_def g1 g2 r1 case_prod_beta)
    next
      case (Some volume)
      obtain ok w3 where s: "setSlaveVolume m w2 volume muted = (ok, w3)"
        by (cases "setSlaveVolume m w2 volume muted")
      have n3': "w_notify w3 = registered m" using n3 [of volume muted] s by simp
      show ?thesis
        using un [OF n3'] n3'
        by (cases ok) (simp_all add: link_sync_def g1 g2 r1 Some s case_prod_beta)
    qed
  qed
qed

lemma linkDevices_notify:
  assumes "w_notify w = registered m"
  shows "w_notify (snd (snd (linkDevices m w a b))) = registered (fst (snd (linkDevices m w a b)))"
proof -
  obtain r m1 w1 where l: "link_register m w a b = (r, m1, w1)"
    by (cases "link_register m w a b")
  note n1 = link_register_notify [OF l assms]
  show ?thesis
    using n1 link_sync_notify [OF n1]
    by (cases r) (simp_all add: linkDevices_def l)
qed

text \<open>
  After \<^verbatim>\<open>linkDevices\<close>, the link is flagged active exactly when nothing was thrown;
  the indices are then the arguments, and after a throw they are -1.
\<close>

lemma linkDevices_flag:
  "m_bLinkActive (fst (snd (linkDevices m w a b))) = (fst (linkDevices m w a b) = None)"
  "fst (linkDevices m w a b) = None \<Longrightarrow>
     m_iMasterDeviceIdx (fst (snd (linkDevices m w a b))) = a \<and>
     m_iSlaveDeviceIdx (fst (snd (linkDevices m w a b))) = b"
  "fst (linkDevices m w a b) \<noteq> None \<Longrightarrow>
     m_iMasterDeviceIdx (fst (snd (linkDevices m w a b))) = - 1 \<and>
     m_iSlaveDeviceIdx (fst (snd (linkDevices m w a b))) = - 1"
proof -
  obtain r m1 w1 where l: "link_register m w a b = (r, m1, w1)"
    by (cases "link_register m w a b")
  show "m_bLinkActive (fst (snd (linkDevices m w a b))) = (fst (linkDevices m w a b) = None)"
  proof (cases r)
    case None
    note d = link_register_done [OF l [unfolded None]]
    show ?thesis
      using d by (simp add: linkDevices_def l None link_sync_manager)
  next
    case (Some e)
    show ?thesis
      using link_register_thrown [OF l [unfolded Some]] by (simp add: linkDevices_def l Some)
  qed
  show "m_iMasterDeviceIdx (fst (snd (linkDevices m w a b))) = a \<and>
     m_iSlaveDeviceIdx (fst (snd (linkDevices m w a b))) = b"
    if "fst (linkDevices m w a b) = None"
  proof (cases r)
    case None
    note d = link_register_done [OF l [unfolded None]]
    show ?thesis
      using d that by (simp add: linkDevices_def l None link_sync_manager)
  next
    case (Some e)
    then show ?thesis using that by (simp add: linkDevices_def l)
  qed
  show "m_iMasterDeviceIdx (fst (snd (linkDevices m w a b))) = - 1 \<and>
     m_iSlaveDeviceIdx (fst (snd (linkDevices m w a b))) = - 1"
    if "fst (linkDevices m w a b) \<noteq> None"
  proof (cases r)
    case None
    show ?thesis
      using that by (auto simp: linkDevices_def l None link_sync_manager)
  next
    case (Some e)
    show ?thesis
      using link_register_thrown [OF l [unfolded Some]] by (simp add: linkDevices_def l Some)
  qed
qed

lemma world_idle_simps [simp]:
  "w_hresult (world_idle h) = h" "w_calls (world_idle h) = []" "w_notify (world_idle h) = {}"
  "w_posted (world_idle h) = []"
  by (simp_all add: world_idle_def world_of_def)

text \<open>
  After a throw of \<^verbatim>\<open>linkDevices\<close> the link is not flagged, the indices are -1 and,
  from a state in which platform and manager agree, the callback is registered nowhere.
\<close>

lemma linkDevices_thrown_unregistered:
  assumes "w_notify w = registered m" "fst (linkDevices m w a b) \<noteq> None"
  shows "\<not> isLinkActive (fst (snd (linkDevices m w a b))) \<and>
         getMasterDeviceIdx (fst (snd (linkDevices m w a b))) = - 1 \<and>
         getSlaveDeviceIdx (fst (snd (linkDevices m w a b))) = - 1 \<and>
         w_notify (snd (snd (linkDevices m w a b))) = {}"
  using linkDevices_flag(1) [of m w a b] linkDevices_flag(3) [OF assms(2)]
    linkDevices_notify [OF assms(1), of a b] assms(2)
  by (simp add: isLinkActive_def getMasterDeviceIdx_def getSlaveDeviceIdx_def registered_def)

lemma link_register_refused:
  "link_register unlinked_manager (world_idle refuse_register) 0 1 =
     (Some SubscriptionError,
      unlinked_manager\<lparr>m_pMasterEndptVol := Some 1, m_pSlaveEndptVol := Some 0\<rparr>,
      (world_idle refuse_register)
        \<lparr>w_calls := [Activate 1, Activate 0, RegisterControlChangeNotify 1]\<rparr>)"
proof -
  have u: "unlinkDevices unlinked_manager (world_idle refuse_register) =
           (unlinked_manager, world_idle refuse_register)"
    by (simp add: unlinkDevices_def unlinked_manager_def reset_ptr_def)
  have g0: "getDevice unlinked_manager 0 = Inr (two_devices ! 0)"
    and g1: "getDevice unlinked_manager 1 = Inr (two_devices ! 1)"
    by (simp_all add: getDevice_def unlinked_manager_def two_devices_def)
  have d: "m_pEndpoint (two_devices ! 0) = 1" "m_pEndpoint (two_devices ! Suc 0) = 0"
    by (simp_all add: two_devices_def)
  show ?thesis
    by (simp add: link_register_def u g0 g1 d activateAudioEndpointVolume_def com_Activate_def
        com_RegisterControlChangeNotify_def SUCCEEDED_def issue_def
        refuse_register_def SubscriptionError_def)
qed

text \<open>
  C2, at a failing registration. From the unlinked manager of two devices, on a platform
  that refuses the registration of the callback, \<^verbatim>\<open>linkDevices(0, 1)\<close> throws the
  subscription error with the link unflagged and nothing registered, but both interface
  pointers still set: no \<open>Release\<close> is among the calls, and a \<^verbatim>\<open>setMasterVolume\<close>
  that follows still reaches the master endpoint.
\<close>

theorem linkDevices_registration_failure_keeps_pointers:
  "linkDevices unlinked_manager (world_idle refuse_register) 0 1 =
     (Some SubscriptionError,
      unlinked_manager\<lparr>m_pMasterEndptVol := Some 1, m_pSlaveEndptVol := Some 0\<rparr>,
      (world_idle refuse_register)
        \<lparr>w_calls := [Activate 1, Activate 0, RegisterControlChangeNotify 1]\<rparr>) \<and>
   \<not> isLinkActive (fst (snd (linkDevices unlinked_manager (world_idle refuse_register) 0 1))) \<and>
   w_notify (snd (snd (linkDevices unlinked_manager (world_idle refuse_register) 0 1))) = {} \<and>
   w_calls (snd (snd (setMasterVolume
       (fst (snd (linkDevices unlinked_manager (world_idle refuse_register) 0 1)))
       (snd (snd (linkDevices unlinked_manager (world_idle refuse_register) 0 1)))
       (Float32 1 (- 1))))) =
     [Activate 1, Activate 0, RegisterControlChangeNotify 1,
      SetMasterVolumeLevelScalar 1 (Float32 1 (- 1)) 7]"
proof -
  have l: "linkDevices unlinked_manager (world_idle refuse_register) 0 1 =
     (Some SubscriptionError,
      unlinked_manager\<lparr>m_pMasterEndptVol := Some 1, m_pSlaveEndptVol := Some 0\<rparr>,
      (world_idle refuse_register)
        \<lparr>w_calls := [Activate 1, Activate 0, RegisterControlChangeNotify 1]\<rparr>)"
    by (simp add: linkDevices_def link_register_refused)
  show ?thesis
    unfolding l
    by (simp add: setMasterVolume_def com_SetMasterVolumeLevelScalar_def SUCCEEDED_def issue_def
        refuse_register_def unlinked_manager_def isLinkActive_def)
qed

text \<open>
  The second part on a linked manager, by the first call that the platform refuses:
  the calls made, the exception thrown, and the states left. A refusal is followed by
  the calls of \<^verbatim>\<open>unlinkDevices\<close> on the flagged link.
\<close>

lemma link_sync_GetMute_refused:
  assumes "Linked m hm hs" "\<not> w_hresult w (w_calls w) (GetMute hm)"
  shows "link_sync m w =
     (Some (runtime_error ''Failed to retrieve master device's volume state. Link could not be established.''),
      m\<lparr>m_bLinkActive := False, m_iMasterDeviceIdx := - 1, m_iSlaveDeviceIdx := - 1,
        m_pMasterEndptVol := None, m_pSlaveEndptVol := None\<rparr>,
      w\<lparr>w_calls := w_calls w @ [GetMute hm, UnregisterControlChangeNotify hm, Release hm, Release hs],
        w_notify := w_notify w - {hm}\<rparr>)"
  using assms
  by (simp add: Linked_def link_sync_def com_GetMute_def SUCCEEDED_def issue_def
      unlinkDevices_def reset_ptr_def com_UnregisterControlChangeNotify_def)

lemma link_sync_GetMasterVolumeLevelScalar_refused:
  assumes "Linked m hm hs" "w_hresult w (w_calls w) (GetMute hm)"
    "\<not> w_hresult w (w_calls w @ [GetMute hm]) (GetMasterVolumeLevelScalar hm)"
  shows "link_sync m w =
     (Some (runtime_error ''Failed to retrieve master device's mute state. Link could not be established.''),
      m\<lparr>m_bLinkActive := False, m_iMasterDeviceIdx := - 1, m_iSlaveDeviceIdx := - 1,
        m_pMasterEndptVol := None, m_pSlaveEndptVol := None\<rparr>,
      w\<lparr>w_calls := w_calls w @ [GetMute hm, GetMasterVolumeLevelScalar hm,
                                UnregisterControlChangeNotify hm, Release hm, Release hs],
        w_notify := w_notify w - {hm}\<rparr>)"
  using assms
  by (simp add: Linked_def link_sync_def com_GetMute_def com_GetMasterVolumeLevelScalar_def
      SUCCEEDED_def issue_def unlinkDevices_def reset_ptr_def
      com_UnregisterControlChangeNotify_def)

lemma link_sync_SetMasterVolumeLevelScalar_refused:
  assumes "Linked m hm hs" "w_hresult w (w_calls w) (GetMute hm)"
    "w_hresult w (w_calls w @ [GetMute hm]) (GetMasterVolumeLevelScalar hm)"
    "\<not> w_hresult w (w_calls w @ [GetMute hm, GetMasterVolumeLevelScalar hm])
         (SetMasterVolumeLevelScalar hs (w_volume w hm) (m_processGUID m))"
  shows "link_sync m w =
     (Some (runtime_error ''Failed to sync master volume to slave device. Link could not be established.''),
      m\<lparr>m_bLinkActive := False, m_iMasterDeviceIdx := - 1, m_iSlaveDeviceIdx := - 1,
        m_pMasterEndptVol := None, m_pSlaveEndptVol := None\<rparr>,
      w\<lparr>w_calls := w_calls w @ [GetMute hm, GetMasterVolumeLevelScalar hm,
                                SetMasterVolumeLevelScalar hs (w_volume w hm) (m_processGUID m),
                                UnregisterControlChangeNotify hm, Release hm, Release hs],
        w_notify := w_notify w - {hm}\<rparr>)"
  using assms
  by (simp add: Linked_def link_sync_def com_GetMute_def com_GetMasterVolumeLevelScalar_def
      setSlaveVolume_def com_SetMasterVolumeLevelScalar_def
      SUCCEEDED_def issue_def unlinkDevices_def reset_ptr_def
      com_UnregisterControlChangeNotify_def)

lemma link_sync_SetMute_refused:
  assumes "Linked m hm hs" "w_hresult w (w_calls w) (GetMute hm)"
    "w_hresult w (w_calls w @ [GetMute hm]) (GetMasterVolumeLevelScalar hm)"
    "w_hresult w (w_calls w @ [GetMute hm, GetMasterVolumeLevelScalar hm])
       (SetMasterVolumeLevelScalar hs (w_volume w hm) (m_processGUID m))"
    "\<not> w_hresult w (w_calls w @ [GetMute hm, GetMasterVolumeLevelScalar hm,
                                 SetMasterVolumeLevelScalar hs (w_volume w hm) (m_processGUID m)])
         (SetMute hs (w_mute w hm) (m_processGUID m))"
  shows "link_sync m w =
     (Some (runtime_error ''Failed to sync master volume to slave device. Link could not be established.''),
      m\<lparr>m_bLinkActive := False, m_iMasterDeviceIdx := - 1, m_iSlaveDeviceIdx := - 1,
        m_pMasterEndptVol := None, m_pSlaveEndptVol := None\<rparr>,
      w\<lparr>w_calls := w_calls w @ [GetMute hm, GetMasterVolumeLevelScalar hm,
                                SetMasterVolumeLevelScalar hs (w_volume w hm) (m_processGUID m),
                                SetMute hs (w_mute w hm) (m_processGUID m),
                                UnregisterControlChangeNotify hm, Release hm, Release hs],
        w_volume := (w_volume w)(hs := w_volume w hm),
        w_notify := w_notify w - {hm}\<rparr>)"
  using assms
  by (simp add: Linked_def link_sync_def com_GetMute_def com_GetMasterVolumeLevelScalar_def
      setSlaveVolume_def com_SetMasterVolumeLevelScalar_def com_SetMute_def
      SUCCEEDED_def issue_def unlinkDevices_def reset_ptr_def
      com_UnregisterControlChangeNotify_def)

lemma link_sync_accepted:
  assumes "Linked m hm hs" "w_hresult w (w_calls w) (GetMute hm)"
    "w_hresult w (w_calls w @ [GetMute hm]) (GetMasterVolumeLevelScalar hm)"
    "w_hresult w (w_calls w @ [GetMute hm, GetMasterVolumeLevelScalar hm])
       (SetMasterVolumeLevelScalar hs (w_volume w hm) (m_processGUID m))"
    "w_hresult w (w_calls w @ [GetMute hm, GetMasterVolumeLevelScalar hm,
                               SetMasterVolumeLevelScalar hs (w_volume w hm) (m_processGUID m)])
       (SetMute hs (w_mute w hm) (m_processGUID m))"
  shows "link_sync m w =
     (None, m,
      w\<lparr>w_calls := w_calls w @ [GetMute hm, GetMasterVolumeLevelScalar hm,
                                SetMasterVolumeLevelScalar hs (w_volume w hm) (m_processGUID m),
                                SetMute hs (w_mute w hm) (m_processGUID m)],
        w_volume := (w_volume w)(hs := w_volume w hm),
        w_mute := (w_mute w)(hs := w_mute w hm),
        w_posted := w_posted w @ dialog_update m (w_volume w hm) (w_mute w hm)\<rparr>)"
  using assms
  by (simp add: Linked_def link_sync_def com_GetMute_def com_GetMasterVolumeLevelScalar_def
      setSlaveVolume_def com_SetMasterVolumeLevelScalar_def com_SetMute_def
      SUCCEEDED_def issue_def updateDialog_def dialog_update_def post_def
      split: option.splits)

text \<open>
  C3, as the source has it. When the first part of \<^verbatim>\<open>linkDevices\<close> throws, that is
  the outcome, with the link unflagged and the indices -1. When it does not, it ends,
  as soon as the callback is registered, with the link flagged active, the indices set
  and both pointers set; from that state the master's mute state and volume are read
  and written to the slave, up to the first call that the platform refuses. After a
  refusal the callback is unregistered, both interfaces are released, the flag and the
  indices are reset, and the failure is thrown; when every call is accepted the manager
  stays as the first part left it and the dialog is updated. So after
  \<^verbatim>\<open>linkDevices\<close> the link is flagged exactly when nothing was thrown, with the
  indices the arguments, and -1 after a throw.
\<close>

theorem linkDevices_flag_before_sync:
  "(case link_register m w a b of
      (Some e, m1, w1) \<Rightarrow>
        linkDevices m w a b = (Some e, m1, w1) \<and> \<not> isLinkActive m1 \<and>
        getMasterDeviceIdx m1 = - 1 \<and> getSlaveDeviceIdx m1 = - 1
    | (None, m1, w1) \<Rightarrow>
        (\<exists>hm hs.
           Linked m1 hm hs \<and> isLinkActive m1 \<and>
           getMasterDeviceIdx m1 = a \<and> getSlaveDeviceIdx m1 = b \<and>
           hm \<in> w_notify w1 \<and>
           w_calls w1 \<noteq> [] \<and> last (w_calls w1) = RegisterControlChangeNotify hm \<and>
           (let c = w_calls w1; h = w_hresult w1; g = m_processGUID m1;
                v = w_volume w1 hm; mu = w_mute w1 hm;
                unlinked = m1\<lparr>m_bLinkActive := False, m_iMasterDeviceIdx := - 1,
                             m_iSlaveDeviceIdx := - 1, m_pMasterEndptVol := None,
                             m_pSlaveEndptVol := None\<rparr>;
                undo = [UnregisterControlChangeNotify hm, Release hm, Release hs]
            in linkDevices m w a b =
                 (if \<not> h c (GetMute hm)
                  then (Some (runtime_error ''Failed to retrieve master device's volume state. Link could not be established.''),
                        unlinked,
                        w1\<lparr>w_calls := c @ [GetMute hm] @ undo, w_notify := w_notify w1 - {hm}\<rparr>)
                  else if \<not> h (c @ [GetMute hm]) (GetMasterVolumeLevelScalar hm)
                  then (Some (runtime_error ''Failed to retrieve master device's mute state. Link could not be established.''),
                        unlinked,
                        w1\<lparr>w_calls := c @ [GetMute hm, GetMasterVolumeLevelScalar hm] @ undo,
                           w_notify := w_notify w1 - {hm}\<rparr>)
                  else if \<not> h (c @ [GetMute hm, GetMasterVolumeLevelScalar hm])
                              (SetMasterVolumeLevelScalar hs v g)
                  then (Some (runtime_error ''Failed to sync master volume to slave device. Link could not be established.''),
                        unlinked,
                        w1\<lparr>w_calls := c @ [GetMute hm, GetMasterVolumeLevelScalar hm,
                                             SetMasterVolumeLevelScalar hs v g] @ undo,
                           w_notify := w_notify w1 - {hm}\<rparr>)
                  else if \<not> h (c @ [GetMute hm, GetMasterVolumeLevelScalar hm,
                                     SetMasterVolumeLevelScalar hs v g]) (SetMute hs mu g)
                  then (Some (runtime_error ''Failed to sync master volume to slave device. Link could not be established.''),
                        unlinked,
                        w1\<lparr>w_calls := c @ [GetMute hm, GetMasterVolumeLevelScalar hm,
                                             SetMasterVolumeLevelScalar hs v g, SetMute hs mu g] @ undo,
                           w_volume := (w_volume w1)(hs := v),
                           w_notify := w_notify w1 - {hm}\<rparr>)
                  else (None, m1,
                        w1\<lparr>w_calls := c @ [GetMute hm, GetMasterVolumeLevelScalar hm,
                                             SetMasterVolumeLevelScalar hs v g, SetMute hs mu g],
                           w_volume := (w_volume w1)(hs := v),
                           w_mute := (w_mute w1)(hs := mu),
                           w_posted := w_posted w1 @ dialog_update m1 v mu\<rparr>))))) \<and>
   isLinkActive (fst (snd (linkDevices m w a b))) = (fst (linkDevices m w a b) = None) \<and>
   (fst (linkDevices m w a b) = None \<longrightarrow>
      getMasterDeviceIdx (fst (snd (linkDevices m w a b))) = a \<and>
      getSlaveDeviceIdx (fst (snd (linkDevices m w a b))) = b) \<and>
   (fst (linkDevices m w a b) \<noteq> None \<longrightarrow>
      getMasterDeviceIdx (fst (snd (linkDevices m w a b))) = - 1 \<and>
      getSlaveDeviceIdx (fst (snd (linkDevices m w a b))) = - 1)"
proof -
  obtain r m1 w1 where l: "link_register m w a b = (r, m1, w1)"
    by (cases "link_register m w a b")
  obtain m0 w0 where u: "unlinkDevices m w = (m0, w0)" by (cases "unlinkDevices m w")
  have first: "(case link_register m w a b of
      (Some e, m1, w1) \<Rightarrow>
        linkDevices m w a b = (Some e, m1, w1) \<and> \<not> isLinkActive m1 \<and>
        getMasterDeviceIdx m1 = - 1 \<and> getSlaveDeviceIdx m1 = - 1
    | (None, m1, w1) \<Rightarrow>
        (\<exists>hm hs.
           Linked m1 hm hs \<and> isLinkActive m1 \<and>
           getMasterDeviceIdx m1 = a \<and> getSlaveDeviceIdx m1 = b \<and>
           hm \<in> w_notify w1 \<and>
           w_calls w1 \<noteq> [] \<and> last (w_calls w1) = RegisterControlChangeNotify hm \<and>
           (let c = w_calls w1; h = w_hresult w1; g = m_processGUID m1;
                v = w_volume w1 hm; mu = w_mute w1 hm;
                unlinked = m1\<lparr>m_bLinkActive := False, m_iMasterDeviceIdx := - 1,
                             m_iSlaveDeviceIdx := - 1, m_pMasterEndptVol := None,
                             m_pSlaveEndptVol := None\<rparr>;
                undo = [UnregisterControlChangeNotify hm, Release hm, Release hs]
            in linkDevices m w a b =
                 (if \<not> h c (GetMute hm)
                  then (Some (runtime_error ''Failed to retrieve master device's volume state. Link could not be established.''),
                        unlinked,
                        w1\<lparr>w_calls := c @ [GetMute hm] @ undo, w_notify := w_notify w1 - {hm}\<rparr>)
                  else if \<not> h (c @ [GetMute hm]) (GetMasterVolumeLevelScalar hm)
                  then (Some (runtime_error ''Failed to retrieve master device's mute state. Link could not be established.''),
                        unlinked,
                        w1\<lparr>w_calls := c @ [GetMute hm, GetMasterVolumeLevelScalar hm] @ undo,
                           w_notify := w_notify w1 - {hm}\<rparr>)
                  else if \<not> h (c @ [GetMute hm, GetMasterVolumeLevelScalar hm])
                              (SetMasterVolumeLevelScalar hs v g)
                  then (Some (runtime_error ''Failed to sync master volume to slave device. Link could not be established.''),
                        unlinked,
                        w1\<lparr>w_calls := c @ [GetMute hm, GetMasterVolumeLevelScalar hm,
                                             SetMasterVolumeLevelScalar hs v g] @ undo,
                           w_notify := w_notify w1 - {hm}\<rparr>)
                  else if \<not> h (c @ [GetMute hm, GetMasterVolumeLevelScalar hm,
                                     SetMasterVolumeLevelScalar hs v g]) (SetMute hs mu g)
                  then (Some (runtime_error ''Failed to sync master volume to slave device. Link could not be established.''),
                        unlinked,
                        w1\<lparr>w_calls := c @ [GetMute hm, GetMasterVolumeLevelScalar hm,
                                             SetMasterVolumeLevelScalar hs v g, SetMute hs mu g] @ undo,
                           w_volume := (w_volume w1)(hs := v),
                           w_notify := w_notify w1 - {hm}\<rparr>)
                  else (None, m1,
                        w1\<lparr>w_calls := c @ [GetMute hm, GetMasterVolumeLevelScalar hm,
                                             SetMasterVolumeLevelScalar hs v g, SetMute hs mu g],
                           w_volume := (w_volume w1)(hs := v),
                           w_mute := (w_mute w1)(hs := mu),
                           w_posted := w_posted w1 @ dialog_update m1 v mu\<rparr>)))))"
  proof (cases r)
    case (Some e)
    show ?thesis
      using link_register_thrown [OF l [unfolded Some]]
      by (simp add: l Some linkDevices_def isLinkActive_def getMasterDeviceIdx_def
          getSlaveDeviceIdx_def)
  next
    case None
    note l' = l [unfolded None]
    have m0: "\<not> m_bLinkActive m0" using unlinkDevices_manager [of m w] u by simp
    from l' obtain hm hs where
      m1: "m1 = m0\<lparr>m_pMasterEndptVol := Some hm, m_pSlaveEndptVol := Some hs,
                   m_bLinkActive := True, m_iMasterDeviceIdx := a, m_iSlaveDeviceIdx := b\<rparr>"
      and n1: "w_notify w1 = insert hm (w_notify w0)"
      and c1: "w_calls w1 \<noteq> [] \<and> last (w_calls w1) = RegisterControlChangeNotify hm"
      by (cases rule: link_register_cases [OF u, of a b]) auto
    have lk: "Linked m1 hm hs" by (simp add: m1 Linked_def)
    have e: "linkDevices m w a b = link_sync m1 w1" by (simp add: linkDevices_def l')
    have idx: "isLinkActive m1 \<and> getMasterDeviceIdx m1 = a \<and> getSlaveDeviceIdx m1 = b"
      by (simp add: m1 isLinkActive_def getMasterDeviceIdx_def getSlaveDeviceIdx_def)
    have out: "(let c = w_calls w1; h = w_hresult w1; g = m_processGUID m1;
                v = w_volume w1 hm; mu = w_mute w1 hm;
                unlinked = m1\<lparr>m_bLinkActive := False, m_iMasterDeviceIdx := - 1,
                             m_iSlaveDeviceIdx := - 1, m_pMasterEndptVol := None,
                             m_pSlaveEndptVol := None\<rparr>;
                undo = [UnregisterControlChangeNotify hm, Release hm, Release hs]
            in linkDevices m w a b =
                 (if \<not> h c (GetMute hm)
                  then (Some (runtime_error ''Failed to retrieve master device's volume state. Link could not be established.''),
                        unlinked,
                        w1\<lparr>w_calls := c @ [GetMute hm] @ undo, w_notify := w_notify w1 - {hm}\<rparr>)
                  else if \<not> h (c @ [GetMute hm]) (GetMasterVolumeLevelScalar hm)
                  then (Some (runtime_error ''Failed to retrieve master device's mute state. Link could not be established.''),
                        unlinked,
                        w1\<lparr>w_calls := c @ [GetMute hm, GetMasterVolumeLevelScalar hm] @ undo,
                           w_notify := w_notify w1 - {hm}\<rparr>)
                  else if \<not> h (c @ [GetMute hm, GetMasterVolumeLevelScalar hm])
                              (SetMasterVolumeLevelScalar hs v g)
                  then (Some (runtime_error ''Failed to sync master volume to slave device. Link could not be established.''),
                        unlinked,
                        w1\<lparr>w_calls := c @ [GetMute hm, GetMasterVolumeLevelScalar hm,
                                             SetMasterVolumeLevelScalar hs v g] @ undo,
                           w_notify := w_notify w1 - {hm}\<rparr>)
                  else if \<not> h (c @ [GetMute hm, GetMasterVolumeLevelScalar hm,
                                     SetMasterVolumeLevelScalar hs v g]) (SetMute hs mu g)
                  then (Some (runtime_error ''Failed to sync master volume to slave device. Link could not be established.''),
                        unlinked,
                        w1\<lparr>w_calls := c @ [GetMute hm, GetMasterVolumeLevelScalar hm,
                                             SetMasterVolumeLevelScalar hs v g, SetMute hs mu g] @ undo,
                           w_volume := (w_volume w1)(hs := v),
                           w_notify := w_notify w1 - {hm}\<rparr>)
                  else (None, m1,
                        w1\<lparr>w_calls := c @ [GetMute hm, GetMasterVolumeLevelScalar hm,
                                             SetMasterVolumeLevelScalar hs v g, SetMute hs mu g],
                           w_volume := (w_volume w1)(hs := v),
                           w_mute := (w_mute w1)(hs := mu),
                           w_posted := w_posted w1 @ dialog_update m1 v mu\<rparr>)))"
    proof (cases "w_hresult w1 (w_calls w1) (GetMute hm)")
      case False
      show ?thesis
        by (simp add: e Let_def False link_sync_GetMute_refused [OF lk False])
    next
      case t1: True
      show ?thesis
      proof (cases "w_hresult w1 (w_calls w1 @ [GetMute hm]) (GetMasterVolumeLevelScalar hm)")
        case False
        show ?thesis
          by (simp add: e Let_def t1 False
              link_sync_GetMasterVolumeLevelScalar_refused [OF lk t1 False])
      next
        case t2: True
        show ?thesis
        proof (cases "w_hresult w1 (w_calls w1 @ [GetMute hm, GetMasterVolumeLevelScalar hm])
            (SetMasterVolumeLevelScalar hs (w_volume w1 hm) (m_processGUID m1))")
          case False
          show ?thesis
            by (simp add: e Let_def t1 t2 False
                link_sync_SetMasterVolumeLevelScalar_refused [OF lk t1 t2 False])
        next
          case t3: True
          show ?thesis
          proof (cases "w_hresult w1 (w_calls w1 @ [GetMute hm, GetMasterVolumeLevelScalar hm,
              SetMasterVolumeLevelScalar hs (w_volume w1 hm) (m_processGUID m1)])
              (SetMute hs (w_mute w1 hm) (m_processGUID m1))")
            case False
            show ?thesis
              by (simp add: e Let_def t1 t2 t3 False
                  link_sync_SetMute_refused [OF lk t1 t2 t3 False])
          next
            case t4: True
            show ?thesis
              by (simp add: e Let_def t1 t2 t3 t4 link_sync_accepted [OF lk t1 t2 t3 t4])
          qed
        qed
      qed
    qed
    have i1: "isLinkActive m1" and i2: "getMasterDeviceIdx m1 = a"
      and i3: "getSlaveDeviceIdx m1 = b"
      using idx by simp_all
    have n: "hm \<in> w_notify w1" by (simp add: n1)
    have c1a: "w_calls w1 \<noteq> []" and c1b: "last (w_calls w1) = RegisterControlChangeNotify hm"
      using c1 by simp_all
    have "\<exists>hm hs.
           Linked m1 hm hs \<and> isLinkActive m1 \<and>
           getMasterDeviceIdx m1 = a \<and> getSlaveDeviceIdx m1 = b \<and>
           hm \<in> w_notify w1 \<and>
           w_calls w1 \<noteq> [] \<and> last (w_calls w1) = RegisterControlChangeNotify hm \<and>
           (let c = w_calls w1; h = w_hresult w1; g = m_processGUID m1;
                v = w_volume w1 hm; mu = w_mute w1 hm;
                unlinked = m1\<lparr>m_bLinkActive := False, m_iMasterDeviceIdx := - 1,
                             m_iSlaveDeviceIdx := - 1, m_pMasterEndptVol := None,
                             m_pSlaveEndptVol := None\<rparr>;
                undo = [UnregisterControlChangeNotify hm, Release hm, Release hs]
            in linkDevices m w a b =
                 (if \<not> h c (GetMute hm)
                  then (Some (runtime_error ''Failed to retrieve master device's volume state. Link could not be established.''),
                        unlinked,
                        w1\<lparr>w_calls := c @ [GetMute hm] @ undo, w_notify := w_notify w1 - {hm}\<rparr>)
                  else if \<not> h (c @ [GetMute hm]) (GetMasterVolumeLevelScalar hm)
                  then (Some (runtime_error ''Failed to retrieve master device's mute state. Link could not be established.''),
                        unlinked,
                        w1\<lparr>w_calls := c @ [GetMute hm, GetMasterVolumeLevelScalar hm] @ undo,
                           w_notify := w_notify w1 - {hm}\<rparr>)
                  else if \<not> h (c @ [GetMute hm, GetMasterVolumeLevelScalar hm])
                              (SetMasterVolumeLevelScalar hs v g)
                  then (Some (runtime_error ''Failed to sync master volume to slave device. Link could not be established.''),
                        unlinked,
                        w1\<lparr>w_calls := c @ [GetMute hm, GetMasterVolumeLevelScalar hm,
                                             SetMasterVolumeLevelScalar hs v g] @ undo,
                           w_notify := w_notify w1 - {hm}\<rparr>)
                  else if \<not> h (c @ [GetMute hm, GetMasterVolumeLevelScalar hm,
                                     SetMasterVolumeLevelScalar hs v g]) (SetMute hs mu g)
                  then (Some (runtime_error ''Failed to sync master volume to slave device. Link could not be established.''),
                        unlinked,
                        w1\<lparr>w_calls := c @ [GetMute hm, GetMasterVolumeLevelScalar hm,
                                             SetMasterVolumeLevelScalar hs v g, SetMute hs mu g] @ undo,
                           w_volume := (w_volume w1)(hs := v),
                           w_notify := w_notify w1 - {hm}\<rparr>)
                  else (None, m1,
                        w1\<lparr>w_calls := c @ [GetMute hm, GetMasterVolumeLevelScalar hm,
                                             SetMasterVolumeLevelScalar hs v g, SetMute hs mu g],
                           w_volume := (w_volume w1)(hs := v),
                           w_mute := (w_mute w1)(hs := mu),
                           w_posted := w_posted w1 @ dialog_update m1 v mu\<rparr>)))"
      by (intro exI [of _ hm] exI [of _ hs] conjI; fact)
    then show ?thesis by (simp only: l' prod.case option.case)
  qed
  have flag: "isLinkActive (fst (snd (linkDevices m w a b))) = (fst (linkDevices m w a b) = None) \<and>
   (fst (linkDevices m w a b) = None \<longrightarrow>
      getMasterDeviceIdx (fst (snd (linkDevices m w a b))) = a \<and>
      getSlaveDeviceIdx (fst (snd (linkDevices m w a b))) = b) \<and>
   (fst (linkDevices m w a b) \<noteq> None \<longrightarrow>
      getMasterDeviceIdx (fst (snd (linkDevices m w a b))) = - 1 \<and>
      getSlaveDeviceIdx (fst (snd (linkDevices m w a b))) = - 1)"
    using linkDevices_flag [of m w a b]
    by (simp add: isLinkActive_def getMasterDeviceIdx_def getSlaveDeviceIdx_def)
  show ?thesis
    using first flag by (intro conjI) (elim conjE, assumption)+
qed

lemma link_register_two_devices:
  "link_register unlinked_manager (world_idle h) 0 1 =
     (if h [Activate 1, Activate 0] (RegisterControlChangeNotify 1) \<and> h [] (Activate 1) \<and>
         h [Activate 1] (Activate 0)
      then (None,
            unlinked_manager\<lparr>m_pMasterEndptVol := Some 1, m_pSlaveEndptVol := Some 0,
              m_bLinkActive := True, m_iMasterDeviceIdx := 0, m_iSlaveDeviceIdx := 1\<rparr>,
            (world_idle h)\<lparr>w_calls := [Activate 1, Activate 0, RegisterControlChangeNotify 1],
              w_notify := {1}\<rparr>)
      else link_register unlinked_manager (world_idle h) 0 1)"
proof -
  have u: "unlinkDevices unlinked_manager (world_idle h) = (unlinked_manager, world_idle h)"
    by (simp add: unlinkDevices_def unlinked_manager_def reset_ptr_def)
  have g0: "getDevice unlinked_manager 0 = Inr (two_devices ! 0)"
    and g1: "getDevice unlinked_manager 1 = Inr (two_devices ! 1)"
    by (simp_all add: getDevice_def unlinked_manager_def two_devices_def)
  have d: "m_pEndpoint (two_devices ! 0) = 1" "m_pEndpoint (two_devices ! Suc 0) = 0"
    by (simp_all add: two_devices_def)
  show ?thesis
    by (simp add: link_register_def u g0 g1 d activateAudioEndpointVolume_def com_Activate_def
        com_RegisterControlChangeNotify_def SUCCEEDED_def issue_def)
qed

text \<open>
  From the unlinked manager of two devices: on a platform that accepts every call; on
  one that refuses the reading of the mute state; on one that refuses the registration.
\<close>

theorem linkDevices_flag_before_sync_witness:
  "fst (link_register unlinked_manager (world_idle (\<lambda>calls c. True)) 0 1) = None \<and>
   isLinkActive (fst (snd (link_register unlinked_manager (world_idle (\<lambda>calls c. True)) 0 1))) \<and>
   fst (linkDevices unlinked_manager (world_idle (\<lambda>calls c. True)) 0 1) = None \<and>
   fst (snd (linkDevices unlinked_manager (world_idle (\<lambda>calls c. True)) 0 1)) = linked_manager \<and>
   w_calls (snd (snd (linkDevices unlinked_manager (world_idle (\<lambda>calls c. True)) 0 1))) =
     [Activate 1, Activate 0, RegisterControlChangeNotify 1, GetMute 1,
      GetMasterVolumeLevelScalar 1, SetMasterVolumeLevelScalar 0 (Float32 1 (- 1)) 7,
      SetMute 0 False 7] \<and>
   w_notify (snd (snd (linkDevices unlinked_manager (world_idle (\<lambda>calls c. True)) 0 1))) = {1} \<and>
   fst (link_register unlinked_manager (world_idle refuse_GetMute) 0 1) = None \<and>
   isLinkActive (fst (snd (link_register unlinked_manager (world_idle refuse_GetMute) 0 1))) \<and>
   fst (linkDevices unlinked_manager (world_idle refuse_GetMute) 0 1) =
     Some (runtime_error ''Failed to retrieve master device's volume state. Link could not be established.'') \<and>
   fst (snd (linkDevices unlinked_manager (world_idle refuse_GetMute) 0 1)) = unlinked_manager \<and>
   w_calls (snd (snd (linkDevices unlinked_manager (world_idle refuse_GetMute) 0 1))) =
     [Activate 1, Activate 0, RegisterControlChangeNotify 1, GetMute 1,
      UnregisterControlChangeNotify 1, Release 1, Release 0] \<and>
   w_notify (snd (snd (linkDevices unlinked_manager (world_idle refuse_GetMute) 0 1))) = {} \<and>
   fst (link_register unlinked_manager (world_idle refuse_register) 0 1) \<noteq> None \<and>
   \<not> isLinkActive (fst (snd (linkDevices unlinked_manager (world_idle refuse_register) 0 1)))"
proof -
  have r: "link_register unlinked_manager (world_idle (\<lambda>calls c. True)) 0 1 =
      (None,
            unlinked_manager\<lparr>m_pMasterEndptVol := Some 1, m_pSlaveEndptVol := Some 0,
              m_bLinkActive := True, m_iMasterDeviceIdx := 0, m_iSlaveDeviceIdx := 1\<rparr>,
            (world_idle (\<lambda>calls c. True))\<lparr>w_calls := [Activate 1, Activate 0, RegisterControlChangeNotify 1],
              w_notify := {1}\<rparr>)"
    by (subst link_register_two_devices) simp
  have r': "link_register unlinked_manager (world_idle refuse_GetMute) 0 1 =
      (None,
            unlinked_manager\<lparr>m_pMasterEndptVol := Some 1, m_pSlaveEndptVol := Some 0,
              m_bLinkActive := True, m_iMasterDeviceIdx := 0, m_iSlaveDeviceIdx := 1\<rparr>,
            (world_idle refuse_GetMute)\<lparr>w_calls := [Activate 1, Activate 0, RegisterControlChangeNotify 1],
              w_notify := {1}\<rparr>)"
    by (subst link_register_two_devices) (simp add: refuse_GetMute_def)
  have f: "fst (link_register unlinked_manager (world_idle refuse_register) 0 1) \<noteq> None"
    by (simp add: link_register_refused)
  note A = linkDevices_flag_before_sync
    [where m = unlinked_manager and w = "world_idle (\<lambda>calls c. True)" and a = 0 and b = 1]
  note B = linkDevices_flag_before_sync
    [where m = unlinked_manager and w = "world_idle refuse_GetMute" and a = 0 and b = 1]
  note C = linkDevices_flag_before_sync
    [where m = unlinked_manager and w = "world_idle refuse_register" and a = 0 and b = 1]
  have a: "linkDevices unlinked_manager (world_idle (\<lambda>calls c. True)) 0 1 =
      (None, linked_manager,
       (world_idle (\<lambda>calls c. True))\<lparr>w_calls := [Activate 1, Activate 0,
          RegisterControlChangeNotify 1, GetMute 1, GetMasterVolumeLevelScalar 1,
          SetMasterVolumeLevelScalar 0 (Float32 1 (- 1)) 7, SetMute 0 False 7],
          w_notify := {1},
          w_volume := (w_volume (world_idle (\<lambda>calls c. True)))(0 := Float32 1 (- 1)),
          w_mute := (w_mute (world_idle (\<lambda>calls c. True)))(0 := False)\<rparr>)"
    using A unfolding r
    by (simp add: Linked_def Let_def unlinked_manager_def linked_manager_def dialog_update_def
        world_idle_def world_of_def)
  have b: "linkDevices unlinked_manager (world_idle refuse_GetMute) 0 1 =
      (Some (runtime_error ''Failed to retrieve master device's volume state. Link could not be established.''),
       unlinked_manager,
       (world_idle refuse_GetMute)\<lparr>w_calls := [Activate 1, Activate 0,
          RegisterControlChangeNotify 1, GetMute 1, UnregisterControlChangeNotify 1,
          Release 1, Release 0],
          w_notify := {}\<rparr>)"
    using B unfolding r'
    by (simp add: Linked_def Let_def unlinked_manager_def refuse_GetMute_def
        world_idle_def world_of_def)
  have c: "\<not> isLinkActive (fst (snd (linkDevices unlinked_manager (world_idle refuse_register) 0 1)))"
    using C unfolding link_register_refused by simp
  show ?thesis
    unfolding a b unfolding r r' using f c
    by (simp add: isLinkActive_def)
qed

text \<open>
  The claim as it stands fails where the reading of the mute state fails: the first
  part has ended without a throw, with the link flagged active and the indices set,
  after three calls; the fourth call, the read, is made from that state and fails; and
  the unregistration that follows is what \<^verbatim>\<open>unlinkDevices\<close> does for a flagged link.
\<close>

theorem linkDevices_reads_while_flagged:
  "fst (link_register unlinked_manager (world_idle refuse_GetMute) 0 1) = None \<and>
   isLinkActive (fst (snd (link_register unlinked_manager (world_idle refuse_GetMute) 0 1))) \<and>
   getMasterDeviceIdx (fst (snd (link_register unlinked_manager (world_idle refuse_GetMute) 0 1))) = 0 \<and>
   getSlaveDeviceIdx (fst (snd (link_register unlinked_manager (world_idle refuse_GetMute) 0 1))) = 1 \<and>
   w_calls (snd (snd (link_register unlinked_manager (world_idle refuse_GetMute) 0 1))) =
     [Activate 1, Activate 0, RegisterControlChangeNotify 1] \<and>
   linkDevices unlinked_manager (world_idle refuse_GetMute) 0 1 =
     link_sync (fst (snd (link_register unlinked_manager (world_idle refuse_GetMute) 0 1)))
       (snd (snd (link_register unlinked_manager (world_idle refuse_GetMute) 0 1))) \<and>
   fst (linkDevices unlinked_manager (world_idle refuse_GetMute) 0 1) =
     Some (runtime_error ''Failed to retrieve master device's volume state. Link could not be established.'') \<and>
   w_calls (snd (snd (linkDevices unlinked_manager (world_idle refuse_GetMute) 0 1))) =
     [Activate 1, Activate 0, RegisterControlChangeNotify 1, GetMute 1,
      UnregisterControlChangeNotify 1, Release 1, Release 0]"
proof -
  have r: "link_register unlinked_manager (world_idle refuse_GetMute) 0 1 =
      (None,
            unlinked_manager\<lparr>m_pMasterEndptVol := Some 1, m_pSlaveEndptVol := Some 0,
              m_bLinkActive := True, m_iMasterDeviceIdx := 0, m_iSlaveDeviceIdx := 1\<rparr>,
            (world_idle refuse_GetMute)\<lparr>w_calls := [Activate 1, Activate 0, RegisterControlChangeNotify 1],
              w_notify := {1}\<rparr>)"
    by (subst link_register_two_devices) (simp add: refuse_GetMute_def)
  have l: "linkDevices unlinked_manager (world_idle refuse_GetMute) 0 1 =
     link_sync (fst (snd (link_register unlinked_manager (world_idle refuse_GetMute) 0 1)))
       (snd (snd (link_register unlinked_manager (world_idle refuse_GetMute) 0 1)))"
    by (simp add: linkDevices_def r)
  have s: "link_sync
     (unlinked_manager\<lparr>m_pMasterEndptVol := Some 1, m_pSlaveEndptVol := Some 0,
              m_bLinkActive := True, m_iMasterDeviceIdx := 0, m_iSlaveDeviceIdx := 1\<rparr>)
     ((world_idle refuse_GetMute)\<lparr>w_calls := [Activate 1, Activate 0, RegisterControlChangeNotify 1],
              w_notify := {1}\<rparr>) =
     (Some (runtime_error ''Failed to retrieve master device's volume state. Link could not be established.''),
      unlinked_manager,
      (world_idle refuse_GetMute)\<lparr>w_calls := [Activate 1, Activate 0, RegisterControlChangeNotify 1,
         GetMute 1, UnregisterControlChangeNotify 1, Release 1, Release 0]\<rparr>)"
    by (simp add: link_sync_def com_GetMute_def SUCCEEDED_def issue_def
        unlinked_manager_def refuse_GetMute_def unlinkDevices_def reset_ptr_def
        com_UnregisterControlChangeNotify_def)
  show ?thesis
    unfolding l unfolding r
    by (simp add: s isLinkActive_def getMasterDeviceIdx_def getSlaveDeviceIdx_def
        del: One_nat_def)
qed

subsection \<open>The catalog\<close>








text \<open>
  The library's sort on twenty-one numbers: as a whole, and its heap functions alone,
  which the whole sort reaches only when the partitioning has used up its depth limit.
\<close>

lemma std_sort_example:
  "std_sort (<) [20, 3, 17, 9, 1, 12, 5, 19, 8, 15, 2, 11, 7, 14, 4, 18, 6, 13, 10, 16, 0 :: nat] =
     [0..<21] \<and>
   partial_sort (<) [20, 3, 17, 9, 1, 12, 5, 19, 8, 15, 2, 11, 7, 14, 4, 18, 6, 13, 10, 16, 0 :: nat]
     0 21 21 = [0..<21] \<and>
   introsort_loop (<) [20, 3, 17, 9, 1, 12, 5, 19, 8, 15, 2, 11, 7, 14, 4, 18, 6, 13, 10, 16, 0 :: nat]
     0 21 0 = [0..<21]"
  by code_simp











subsection \<open>The example states are states of the program\<close>

text \<open>
  The unlinked manager is what the constructor builds from the two endpoints; linking
  device 0 to device 1 on a platform that accepts every call gives the linked manager;
  \<^verbatim>\<open>setDialog\<close> then attaches the dialog.
\<close>

lemma unlinked_manager_constructed:
  "AudioDeviceManager_ctor std_sort towlower_C 7 two_endpoints = Inr unlinked_manager"
  by code_simp

lemma linked_manager_linked:
  "fst (linkDevices unlinked_manager (world_idle (\<lambda>calls c. True)) 0 1) = None \<and>
   fst (snd (linkDevices unlinked_manager (world_idle (\<lambda>calls c. True)) 0 1)) = linked_manager \<and>
   w_notify (snd (snd (linkDevices unlinked_manager (world_idle (\<lambda>calls c. True)) 0 1))) = {1} \<and>
   w_calls (snd (snd (linkDevices unlinked_manager (world_idle (\<lambda>calls c. True)) 0 1))) =
     [Activate 1, Activate 0, RegisterControlChangeNotify 1, GetMute 1,
      GetMasterVolumeLevelScalar 1, SetMasterVolumeLevelScalar 0 (Float32 1 (- 1)) 7,
      SetMute 0 False 7]"
proof -
  have s: "link_sync
     (unlinked_manager\<lparr>m_pMasterEndptVol := Some 1, m_pSlaveEndptVol := Some 0,
              m_bLinkActive := True, m_iMasterDeviceIdx := 0, m_iSlaveDeviceIdx := 1\<rparr>)
     ((world_idle (\<lambda>calls c. True))\<lparr>w_calls := [Activate 1, Activate 0, RegisterControlChangeNotify 1],
              w_notify := {1}\<rparr>) =
     (None, linked_manager,
      (world_idle (\<lambda>calls c. True))\<lparr>w_calls := [Activate 1, Activate 0,
         RegisterControlChangeNotify 1, GetMute 1, GetMasterVolumeLevelScalar 1,
         SetMasterVolumeLevelScalar 0 (Float32 1 (- 1)) 7, SetMute 0 False 7],
         w_notify := {1}, w_volume := (\<lambda>h. Float32 1 (- 1)), w_mute := (\<lambda>h. False)\<rparr>)"
    by (simp add: link_sync_def com_GetMute_def com_GetMasterVolumeLevelScalar_def
        setSlaveVolume_def com_SetMasterVolumeLevelScalar_def com_SetMute_def SUCCEEDED_def
        issue_def unlinked_manager_def linked_manager_def updateDialog_def world_idle_def
        world_of_def fun_eq_iff)
  have l: "linkDevices unlinked_manager (world_idle (\<lambda>calls c. True)) 0 1 =
     (None, linked_manager,
      (world_idle (\<lambda>calls c. True))\<lparr>w_calls := [Activate 1, Activate 0,
         RegisterControlChangeNotify 1, GetMute 1, GetMasterVolumeLevelScalar 1,
         SetMasterVolumeLevelScalar 0 (Float32 1 (- 1)) 7, SetMute 0 False 7],
         w_notify := {1}, w_volume := (\<lambda>h. Float32 1 (- 1)), w_mute := (\<lambda>h. False)\<rparr>)"
    unfolding linkDevices_def
    by (subst link_register_two_devices) (simp add: s del: One_nat_def)
  show ?thesis unfolding l by simp
qed

lemma linked_manager_dlg_attached:
  "linked_manager_dlg = setDialog linked_manager (Some 5) 1001 1002 \<and>
   Linked linked_manager 1 0 \<and> Linked linked_manager_dlg 1 0"
  by (simp add: linked_manager_dlg_def Linked_def linked_manager_def setDialog_def)

end
